theory Spec2Isabelle
  imports Complex_Main
begin

section \<open>Values, points and errors\<close>

text \<open>
  The grid is generic in its cell type \<open>T\<close>, and its constructor, \<open>get\<close> and \<open>set\<close>
  dispatch on \<open>typeof ... === "number"\<close>. A value of type \<open>T\<close> is therefore modelled
  as a small dynamic value: a number, some other value of the cell type, or
  \<open>undefined\<close> (which is also what an omitted optional argument is bound to).
  The sizes of a grid and the numbers stored in its cells are integers.
\<close>

datatype 'a val = Number int | Other 'a | Undefined

text \<open>
  The coordinates that \<open>get\<close> and \<open>set\<close> receive have the type \<open>number\<close>, which
  holds more than the integers: a finite number (a real here; rounding is outside
  the model), \<open>NaN\<close>, and the two infinities. \<open>Integer i\<close> is the number that is the
  integer \<open>i\<close>.
\<close>

datatype number = Finite real | NaN | Infinity | Minus_Infinity

abbreviation Integer :: "int \<Rightarrow> number" where
  "Integer i \<equiv> Finite (of_int i)"

record Point =
  x :: int
  y :: int

text \<open>
  The first parameter of the three overloaded members, \<open>number | Point\<close>, for a
  number that is an integer. What \<open>get\<close> and \<open>set\<close> do with two numbers of any
  kind is \<open>get_row_column\<close> and \<open>set_row_column\<close> below.
\<close>

datatype num_or_Point = Num int | Pt Point

text \<open>
  Everything the code throws, and one marker that is not thrown.
  \<^item> \<open>RangeError\<close>: \<open>Array(n)\<close> with an invalid length.
  \<^item> \<open>TypeError\<close>: a property read or written on \<open>undefined\<close>, or iterating \<open>undefined\<close>.
  \<^item> \<open>Not_an_overload\<close>: marks a constructor call that matches neither declared
    overload (a number first, a non-number second), which TypeScript does not
    compile. The code throws nothing there: it reads \<open>.x\<close> and \<open>.y\<close> of the number,
    both \<open>undefined\<close>, and builds the data \<open>[[maybeDefaultValue]]\<close> with the size
    \<open>(undefined, undefined)\<close>. A size of the model is a pair of integers, so that
    object is no value of the record \<open>Grid\<close>, and the marker stands in its place.
  \<^item> \<open>Set_out_of_bounds sx sy row column\<close>: the error of \<open>set\<close>, whose message is
    \<^verbatim>\<open>Attempted to set data into grid of size '${sx}, ${sy}' at out-of-bounds index: ${row}, ${column}\<close>.
    \<open>Grid_out_of_bounds sx sy row column\<close> is that error for integer coordinates.
  \<^item> \<open>No_project_layer index eid\<close>:
    \<^verbatim>\<open>Ogmo level layer ${index} referenced non-existent project layer with exportID ${eid}\<close>.
  \<^item> \<open>No_default_tileset index label\<close>:
    \<^verbatim>\<open>Ogmo layer ${index} referenced non-existent default tileset: '${label}'\<close>.
  \<^item> \<open>No_entity_factory name\<close>:
    \<^verbatim>\<open>No Ogmo entity factory defined for: ${name}\<close>.
\<close>

datatype error =
    RangeError
  | TypeError
  | Not_an_overload
  | Set_out_of_bounds int int number number
  | No_project_layer nat string
  | No_default_tileset nat string
  | No_entity_factory string

abbreviation Grid_out_of_bounds :: "int \<Rightarrow> int \<Rightarrow> int \<Rightarrow> int \<Rightarrow> error" where
  "Grid_out_of_bounds sx sy row column \<equiv> Set_out_of_bounds sx sy (Integer row) (Integer column)"

section \<open>Grid\<close>

text \<open>
  The class \<open>Grid<T>\<close>. The field \<open>size\<close> is called \<open>gsize\<close> here; the constant field
  \<open>_kind = "grid"\<close> is never read and is left out. \<open>data\<close> is an array of \<open>size.y\<close>
  arrays of \<open>size.x\<close> cells, read as \<open>data[column][row]\<close>.

  An array is an object: besides its elements it holds whatever was assigned to it
  under a key that is no array index, as \<open>data[0][0.5] = v\<close> and \<open>data[0][NaN] = v\<close>
  do. \<open>named_properties\<close> keeps these properties of the inner arrays, the latest
  assignment first: the key is the index of the inner array and the number used.
  No code assigns to a property of the outer array.
\<close>

record 'a Grid =
  gsize :: Point
  data :: "'a val list list"
  defaultValue :: "'a val"
  named_properties :: "((nat \<times> number) \<times> 'a val) list"

text \<open>\<open>Array(n)\<close> accepts a length from 0 to 2^32 - 1 and throws a RangeError otherwise.\<close>

definition valid_array_length :: "int \<Rightarrow> bool" where
  "valid_array_length n \<longleftrightarrow> 0 \<le> n \<and> n \<le> 4294967295"

text \<open>
  Lines 30 to 35 of the constructor. \<open>Array(columns)\<close> is evaluated first; the callback
  of \<open>map\<close>, which evaluates \<open>Array(rows)\<close>, runs once per element, so not at all when
  \<open>columns\<close> is 0.
\<close>

definition Grid_allocate :: "int \<Rightarrow> int \<Rightarrow> 'a val \<Rightarrow> error + 'a Grid" where
  "Grid_allocate rows columns dv =
     (if \<not> valid_array_length columns then Inl RangeError
      else if columns \<noteq> 0 \<and> \<not> valid_array_length rows then Inl RangeError
      else Inr \<lparr> gsize = \<lparr> x = rows, y = columns \<rparr>,
                 data = replicate (nat columns) (replicate (nat rows) dv),
                 defaultValue = dv,
                 named_properties = [] \<rparr>)"

text \<open>
  The constructor's implementation signature
  \<open>(rowsOrRowsAndCols, columnsOrDefaultValue, maybeDefaultValue?)\<close>. In both branches
  the default value is taken from the third parameter.
\<close>

definition Grid_constructor ::
  "num_or_Point \<Rightarrow> 'a val \<Rightarrow> 'a val \<Rightarrow> error + 'a Grid" where
  "Grid_constructor rowsOrRowsAndCols columnsOrDefaultValue maybeDefaultValue =
     (case rowsOrRowsAndCols of
        Num rows \<Rightarrow>
          (case columnsOrDefaultValue of
             Number columns \<Rightarrow> Grid_allocate rows columns maybeDefaultValue
           | _ \<Rightarrow> Inl Not_an_overload)
      | Pt rowsAndCols \<Rightarrow>
          Grid_allocate (x rowsAndCols) (y rowsAndCols) maybeDefaultValue)"

text \<open>
  The two declared overloads, as a caller writes them:
  \<open>new Grid(rows, columns, defaultValue)\<close> and \<open>new Grid(rowsAndCols, defaultValue)\<close>.
  The second passes two arguments, so the third parameter is \<open>undefined\<close>.
\<close>

definition Grid_new :: "int \<Rightarrow> int \<Rightarrow> 'a val \<Rightarrow> error + 'a Grid" where
  "Grid_new rows columns dv = Grid_constructor (Num rows) (Number columns) dv"

definition Grid_new_extent :: "Point \<Rightarrow> 'a val \<Rightarrow> error + 'a Grid" where
  "Grid_new_extent rowsAndCols dv = Grid_constructor (Pt rowsAndCols) dv Undefined"

text \<open>
  The comparisons of the bounds test, a number against an integer: \<open>a > k\<close> and
  \<open>a < k\<close>. Every comparison with \<open>NaN\<close> is false.
\<close>

definition is_above :: "number \<Rightarrow> int \<Rightarrow> bool" where
  "is_above a k =
     (case a of Finite r \<Rightarrow> of_int k < r | Infinity \<Rightarrow> True | _ \<Rightarrow> False)"

definition is_below :: "number \<Rightarrow> int \<Rightarrow> bool" where
  "is_below a k =
     (case a of Finite r \<Rightarrow> r < of_int k | Minus_Infinity \<Rightarrow> True | _ \<Rightarrow> False)"

text \<open>The bounds test shared by \<open>get\<close> and \<open>set\<close> (lines 63 to 68 and 89 to 94).\<close>

definition outside :: "'a Grid \<Rightarrow> number \<Rightarrow> number \<Rightarrow> bool" where
  "outside g row column \<longleftrightarrow>
     is_above row (x (gsize g) - 1) \<or> is_below row 0 \<or>
     is_above column (y (gsize g) - 1) \<or> is_below column 0"

text \<open>
  \<open>array[n]\<close> addresses an element when the number \<open>n\<close> is a non-negative integer,
  and a property named after the number otherwise. (An integer from \<open>2^32 - 1\<close> on
  names a property too; no array is that long, and no index that passes the bounds
  test of a constructed grid is that large.)
\<close>

definition array_index :: "number \<Rightarrow> nat option" where
  "array_index a =
     (case a of
        Finite r \<Rightarrow> if 0 \<le> r \<and> of_int \<lfloor>r\<rfloor> = r then Some (nat \<lfloor>r\<rfloor>) else None
      | _ \<Rightarrow> None)"

text \<open>
  \<open>this.data[column][row]\<close> for non-negative indices: reading past the outer array gives
  \<open>undefined\<close>, whose property read throws; reading past an inner array gives
  \<open>undefined\<close>.
\<close>

definition read_cell :: "'a val list list \<Rightarrow> int \<Rightarrow> int \<Rightarrow> error + 'a val" where
  "read_cell d column row =
     (if nat column < length d
      then (if nat row < length (d ! nat column)
            then Inr (d ! nat column ! nat row) else Inr Undefined)
      else Inl TypeError)"

text \<open>
  \<open>this.data[column][row] = value\<close>: an assignment past the end of an inner array
  extends it, the skipped cells reading as \<open>undefined\<close>.
\<close>

definition array_store :: "'a val list \<Rightarrow> nat \<Rightarrow> 'a val \<Rightarrow> 'a val list" where
  "array_store xs i v =
     (if i < length xs then xs[i := v]
      else xs @ replicate (i - length xs) Undefined @ [v])"

definition write_cell ::
  "'a val list list \<Rightarrow> int \<Rightarrow> int \<Rightarrow> 'a val \<Rightarrow> error + 'a val list list" where
  "write_cell d column row v =
     (if nat column < length d
      then Inr (d[nat column := array_store (d ! nat column) (nat row) v])
      else Inl TypeError)"

text \<open>
  \<open>this.data[column][row]\<close> for any two numbers. A \<open>column\<close> that is no array index
  names a property of the outer array, which has none: \<open>this.data[column]\<close> is
  \<open>undefined\<close> and the read of \<open>[row]\<close> throws. A \<open>row\<close> that is no array index names
  a property of the inner array: the value last assigned to it, or \<open>undefined\<close>.
\<close>

definition read_element :: "'a Grid \<Rightarrow> number \<Rightarrow> number \<Rightarrow> error + 'a val" where
  "read_element g column row =
     (case array_index column of
        None \<Rightarrow> Inl TypeError
      | Some c \<Rightarrow>
          (case array_index row of
             Some r \<Rightarrow> read_cell (data g) (int c) (int r)
           | None \<Rightarrow>
               if c < length (data g)
               then Inr (case map_of (named_properties g) (c, row) of
                           Some v \<Rightarrow> v
                         | None \<Rightarrow> Undefined)
               else Inl TypeError))"

text \<open>
  \<open>this.data[column][row] = value\<close> for any two numbers: the assignment throws when
  \<open>this.data[column]\<close> is \<open>undefined\<close>, writes the cell when \<open>row\<close> is an array index,
  and otherwise sets the property of the inner array that \<open>row\<close> names, which is no
  cell.
\<close>

definition write_element ::
  "'a Grid \<Rightarrow> number \<Rightarrow> number \<Rightarrow> 'a val \<Rightarrow> error + 'a Grid" where
  "write_element g column row v =
     (case array_index column of
        None \<Rightarrow> Inl TypeError
      | Some c \<Rightarrow>
          (case array_index row of
             Some r \<Rightarrow>
               (case write_cell (data g) (int c) (int r) v of
                  Inl e \<Rightarrow> Inl e
                | Inr d \<Rightarrow> Inr (g\<lparr> data := d \<rparr>))
           | None \<Rightarrow>
               if c < length (data g)
               then Inr (g\<lparr> named_properties := ((c, row), v) # named_properties g \<rparr>)
               else Inl TypeError))"

text \<open>
  \<open>get\<close> once \<open>row\<close> and \<open>column\<close> are bound to two numbers (lines 63 to 72). It is
  what the call \<open>get(row, column)\<close> does.
\<close>

definition get_row_column :: "number \<Rightarrow> number \<Rightarrow> 'a Grid \<Rightarrow> error + 'a val" where
  "get_row_column row column g =
     (if outside g row column then Inr (defaultValue g)
      else read_element g column row)"

text \<open>
  \<open>set\<close> once \<open>row\<close>, \<open>column\<close> and \<open>value\<close> are bound (lines 89 to 100); it is what
  the call \<open>set(row, column, value)\<close> does. A mutating member returns the exception
  it threw, if any, together with the grid as it is left.
\<close>

definition set_row_column ::
  "number \<Rightarrow> number \<Rightarrow> 'a val \<Rightarrow> 'a Grid \<Rightarrow> error option \<times> 'a Grid" where
  "set_row_column row column v g =
     (if outside g row column
      then (Some (Set_out_of_bounds (x (gsize g)) (y (gsize g)) row column), g)
      else (case write_element g column row v of
              Inl e \<Rightarrow> (Some e, g)
            | Inr g' \<Rightarrow> (None, g')))"

text \<open>The same three at integer coordinates.\<close>

definition out_of_bounds :: "'a Grid \<Rightarrow> int \<Rightarrow> int \<Rightarrow> bool" where
  "out_of_bounds g row column \<longleftrightarrow> outside g (Integer row) (Integer column)"

definition get_at :: "int \<Rightarrow> int \<Rightarrow> 'a Grid \<Rightarrow> error + 'a val" where
  "get_at row column g = get_row_column (Integer row) (Integer column) g"

definition set_at :: "int \<Rightarrow> int \<Rightarrow> 'a val \<Rightarrow> 'a Grid \<Rightarrow> error option \<times> 'a Grid" where
  "set_at row column v g = set_row_column (Integer row) (Integer column) v g"

text \<open>
  \<open>get(rowOrPos, maybeColumn?)\<close>. With a number first and no column the else branch
  reads \<open>.x\<close> and \<open>.y\<close> of a number, both \<open>undefined\<close>; every comparison with them is
  false and \<open>this.data[undefined][undefined]\<close> throws.
\<close>

definition get :: "num_or_Point \<Rightarrow> int option \<Rightarrow> 'a Grid \<Rightarrow> error + 'a val" where
  "get rowOrPos maybeColumn g =
     (case rowOrPos of
        Num row \<Rightarrow>
          (case maybeColumn of
             Some column \<Rightarrow> get_at row column g
           | None \<Rightarrow> Inl TypeError)
      | Pt pos \<Rightarrow> get_at (x pos) (y pos) g)"

text \<open>\<open>set(rowOrPos, columnOrValue, maybeValue?)\<close>, with the same dispatch.\<close>

definition set_cell ::
  "num_or_Point \<Rightarrow> 'a val \<Rightarrow> 'a val \<Rightarrow> 'a Grid \<Rightarrow> error option \<times> 'a Grid" where
  "set_cell rowOrPos columnOrValue maybeValue g =
     (case rowOrPos of
        Num row \<Rightarrow>
          (case columnOrValue of
             Number column \<Rightarrow> set_at row column maybeValue g
           | _ \<Rightarrow> (Some TypeError, g))
      | Pt pos \<Rightarrow> set_at (x pos) (y pos) columnOrValue g)"

text \<open>
  \<open>setData\<close>: the loop over the input with its cursor \<open>currentX\<close>, \<open>currentY\<close>. An
  exception of \<open>set\<close> ends the loop.
\<close>

fun setData_loop ::
  "'a val list \<Rightarrow> int \<Rightarrow> int \<Rightarrow> 'a Grid \<Rightarrow> error option \<times> 'a Grid" where
  "setData_loop [] currentX currentY g = (None, g)"
| "setData_loop (item # items) currentX currentY g =
     (let wrap = currentX + 1 > x (gsize g);
          cy = (if wrap then currentY + 1 else currentY);
          cx = (if wrap then 0 else currentX)
      in case set_cell (Num cx) (Number cy) item g of
           (Some e, g') \<Rightarrow> (Some e, g')
         | (None, g') \<Rightarrow> setData_loop items (cx + 1) cy g')"

definition setData :: "'a val list \<Rightarrow> 'a Grid \<Rightarrow> error option \<times> 'a Grid" where
  "setData items g = setData_loop items 0 0 g"

subsection \<open>The generator \<open>contents\<close>\<close>

text \<open>
  \<open>contents()\<close> is a generator function: a call runs nothing of the body and returns
  a fresh generator object, and each \<open>next()\<close> resumes the body until the next
  \<open>yield\<close>. The body is two nested \<open>for\<close> loops; \<open>outer_loop i\<close> is the body at the
  test \<open>i < this.size.x\<close>, \<open>inner_loop i j\<close> the body at the test \<open>j < this.size.y\<close>.
  Each gives the indices of the next \<open>yield\<close>, or \<open>None\<close> when the body returns.
\<close>

function outer_loop :: "int \<Rightarrow> 'a Grid \<Rightarrow> (int \<times> int) option"
  and inner_loop :: "int \<Rightarrow> int \<Rightarrow> 'a Grid \<Rightarrow> (int \<times> int) option" where
  "outer_loop i g = (if i < x (gsize g) then inner_loop i 0 g else None)"
| "inner_loop i j g = (if j < y (gsize g) then Some (i, j) else outer_loop (i + 1) g)"
  by pat_completeness auto
termination
  by (relation "measure (\<lambda>s. case s of
         Inl (i, g) \<Rightarrow> 2 * nat (x (gsize g) - i)
       | Inr (i, j, g) \<Rightarrow> 2 * nat (x (gsize g) - i - 1) + 1)") auto

declare outer_loop.simps [simp del] inner_loop.simps [simp del]

text \<open>
  A generator object is suspended at its start, suspended at the \<open>yield\<close> with the
  loop variables \<open>i\<close> and \<open>j\<close>, or completed.
\<close>

datatype generator = Suspended_start | Suspended_yield int int | Completed

definition contents :: "'a Grid \<Rightarrow> generator" where
  "contents g = Suspended_start"

text \<open>
  Arriving at the \<open>yield\<close>: the triple \<open>[i, j, this.get(i, j)]\<close> is built and handed
  out; an exception of \<open>get\<close> completes the generator.
\<close>

definition arrive ::
  "(int \<times> int) option \<Rightarrow> 'a Grid \<Rightarrow> generator \<times> (error + (int \<times> int \<times> 'a val) option)" where
  "arrive ij g =
     (case ij of
        None \<Rightarrow> (Completed, Inr None)
      | Some (i, j) \<Rightarrow>
          (case get (Num i) (Some j) g of
             Inl e \<Rightarrow> (Completed, Inl e)
           | Inr v \<Rightarrow> (Suspended_yield i j, Inr (Some (i, j, v)))))"

text \<open>
  \<open>next()\<close> on a generator, with the grid as it is at that moment: the new state of
  the generator and what the call gives (\<open>Inr None\<close> is \<open>done\<close>).
\<close>

fun gen_next ::
  "generator \<Rightarrow> 'a Grid \<Rightarrow> generator \<times> (error + (int \<times> int \<times> 'a val) option)" where
  "gen_next Suspended_start g = arrive (outer_loop 0 g) g"
| "gen_next (Suspended_yield i j) g = arrive (inner_loop i (j + 1) g) g"
| "gen_next Completed g = (Completed, Inr None)"

text \<open>The loops in closed form; the traversal below needs it to terminate.\<close>

lemma outer_loop_closed:
  "outer_loop i g = (if i < x (gsize g) \<and> 0 < y (gsize g) then Some (i, 0) else None)"
  and inner_loop_closed:
  "inner_loop i j g =
     (if j < y (gsize g) then Some (i, j)
      else if i + 1 < x (gsize g) \<and> 0 < y (gsize g) then Some (i + 1, 0) else None)"
proof (induction i g and i j g rule: outer_loop_inner_loop.induct)
  case (1 i g)
  then show ?case by (subst outer_loop.simps) auto
next
  case (2 i j g)
  then show ?case by (subst inner_loop.simps) auto
qed

lemma arrive_Some:
  "arrive ij g = (gen', Inr (Some t)) \<Longrightarrow> \<exists>i j. ij = Some (i, j) \<and> gen' = Suspended_yield i j"
  by (auto simp: arrive_def split: option.splits sum.splits)

text \<open>
  A consumer that runs a generator to its end while the grid stays as it is, as
  \<open>for (const cell of grid.contents())\<close> or \<open>[...grid.contents()]\<close> does: the list of the
  triples handed out, or the exception that ended the traversal.
\<close>

function traverse :: "generator \<Rightarrow> 'a Grid \<Rightarrow> error + (int \<times> int \<times> 'a val) list" where
  "traverse gen g =
     (case gen_next gen g of
        (gen', Inl e) \<Rightarrow> Inl e
      | (gen', Inr None) \<Rightarrow> Inr []
      | (gen', Inr (Some t)) \<Rightarrow>
          (case traverse gen' g of Inl e \<Rightarrow> Inl e | Inr ts \<Rightarrow> Inr (t # ts)))"
  by pat_completeness auto
termination traverse
  apply (relation "measures
    [\<lambda>(gen, g). case gen of Suspended_start \<Rightarrow> 1 | _ \<Rightarrow> 0,
     \<lambda>(gen, g). case gen of Suspended_yield i j \<Rightarrow> nat (x (gsize g) - i) | _ \<Rightarrow> 0,
     \<lambda>(gen, g). case gen of Suspended_yield i j \<Rightarrow> nat (y (gsize g) - j) | _ \<Rightarrow> 0]")
   apply simp
  subgoal for gen g
    by (cases gen) (auto dest!: arrive_Some [OF sym] simp: inner_loop_closed split: if_splits)
  done

declare traverse.simps [simp del]

subsection \<open>The representation invariant\<close>

text \<open>
  What the constructor establishes and \<open>set\<close> keeps: \<open>data\<close> holds \<open>size.y\<close>
  arrays of \<open>size.x\<close> cells. A height of 0 may come with any width, since
  \<open>Array(rows)\<close> is then never evaluated.
\<close>

definition Grid_inv :: "'a Grid \<Rightarrow> bool" where
  "Grid_inv g \<longleftrightarrow>
     length (data g) = nat (y (gsize g)) \<and>
     (\<forall>r \<in> set (data g). length r = nat (x (gsize g))) \<and>
     0 \<le> y (gsize g) \<and> (0 < y (gsize g) \<longrightarrow> 0 \<le> x (gsize g))"

subsection \<open>Values used in examples\<close>

text \<open>
  The grid and the input of the specification's example: \<open>Grid(3, 2, 0)\<close> as the
  constructor builds it, and \<open>[1, 2, 3, 4, 5, 6]\<close>.
\<close>

abbreviation grid_3_2 :: "unit Grid" where
  "grid_3_2 \<equiv> \<lparr> gsize = \<lparr> x = 3, y = 2 \<rparr>,
                 data = [[Number 0, Number 0, Number 0], [Number 0, Number 0, Number 0]],
                 defaultValue = Number 0,
                 named_properties = [] \<rparr>"

abbreviation one_to_six :: "unit val list" where
  "one_to_six \<equiv> [Number 1, Number 2, Number 3, Number 4, Number 5, Number 6]"

text \<open>The same grid once \<open>setData\<close> has loaded that input.\<close>

abbreviation grid_3_2_loaded :: "unit Grid" where
  "grid_3_2_loaded \<equiv> \<lparr> gsize = \<lparr> x = 3, y = 2 \<rparr>,
                 data = [[Number 1, Number 2, Number 3], [Number 4, Number 5, Number 6]],
                 defaultValue = Number 0,
                 named_properties = [] \<rparr>"

text \<open>The triple that \<open>contents\<close> yields for a cell that is stored.\<close>

abbreviation cell_triple :: "'a Grid \<Rightarrow> int \<times> int \<Rightarrow> int \<times> int \<times> 'a val" where
  "cell_triple g \<equiv> \<lambda>(i, j). (i, j, data g ! nat j ! nat i)"

section \<open>Ogmo projects and levels\<close>

text \<open>
  The project and level documents are the editor's JSON; the code reads them as
  \<open>any\<close>. The model gives them the shape the code's own types and field reads
  expect: numbers are reals (\<open>Math.PI\<close> is \<open>\<pi>\<close>; rounding is outside the model),
  except the cell counts and tile indices, which go into a grid and are integers.
  A field \<open>f?\<close> that may be absent is an \<open>option\<close>. Custom values, which no code
  here looks into, have the unspecified type \<open>any\<close>. Where two types of the source
  have a field of the same name, the field carries a prefix here.
\<close>

typedecl any

record Vector =
  vector_x :: real
  vector_y :: real

record OgmoEntityData =
  e_name :: string
  e_id :: real
  e_eid :: string
  e_x :: real
  e_y :: real
  e_width :: "real option"
  e_height :: "real option"
  e_originX :: "real option"
  e_originY :: "real option"
  e_rotation :: "real option"
  e_flippedX :: "bool option"
  e_flippedY :: "bool option"
  e_values :: "any option"

record OgmoDecalData =
  d_x :: real
  d_y :: real
  d_scaleX :: "real option"
  d_scaleY :: "real option"
  d_rotation :: "real option"
  d_texture :: string
  d_values :: "any option"

record OgmoTileset =
  label :: string
  path :: string
  tileSize :: Vector
  tileSeparation :: Vector

text \<open>
  The four kinds of project layer; the constructor is the \<open>definition\<close> tag. The
  type parameter is what \<open>defaultTileset\<close> holds: the label in the project document,
  the tileset itself once the project is parsed.
\<close>

datatype 'ts OgmoProjectLayer =
    OgmoProjectTileLayer (name: string) (gridSize: Vector) (exportID: string)
      (exportMode: real) (arrayMode: real) (defaultTileset: 'ts)
  | OgmoProjectGridLayer (name: string) (gridSize: Vector) (exportID: string)
      (arrayMode: real) (legend: "(string \<times> string) list")
  | OgmoProjectEntityLayer (name: string) (gridSize: Vector) (exportID: string)
      (requiredTags: "string list") (excludedTags: "string list")
  | OgmoProjectDecalLayer (name: string) (gridSize: Vector) (exportID: string)
      (includeImageSequence: bool) (scaleable: bool) (rotatable: bool)
      (layer_values: "any list")

text \<open>A tileset and the project document, as read from \<open>projectData\<close>.\<close>

record tileset_data =
  raw_label :: string
  raw_path :: string
  tileWidth :: real
  tileHeight :: real
  tileSeparationX :: real
  tileSeparationY :: real

record project_data =
  raw_tilesets :: "tileset_data list"
  raw_layers :: "string OgmoProjectLayer list"

text \<open>
  A layer instance of a level document. Which of \<open>data\<close>, \<open>grid\<close>, \<open>entities\<close> and
  \<open>decals\<close> it has depends on the layer's kind; the others are absent.
\<close>

record level_layer_data =
  raw_eid :: string
  gridCellsX :: int
  gridCellsY :: int
  raw_data :: "int list option"
  raw_grid :: "string list option"
  raw_entities :: "OgmoEntityData list option"
  raw_decals :: "OgmoDecalData list option"

record level_data =
  raw_width :: real
  raw_height :: real
  offsetX :: real
  offsetY :: real
  raw_values :: "any option"
  raw_level_layers :: "level_layer_data list"

text \<open>
  \<open>OgmoLevelLayer\<close>. The grids of tile layers hold numbers, those of grid layers
  strings. \<open>entities\<close> and \<open>decals\<close> are whatever the layer instance had, so possibly
  \<open>undefined\<close>.
\<close>

datatype OgmoLevelLayer =
    Level_tile (projectLayer: "OgmoTileset OgmoProjectLayer") (tiles: "string Grid")
  | Level_grid (projectLayer: "OgmoTileset OgmoProjectLayer") (codes: "string Grid")
  | Level_entity (projectLayer: "OgmoTileset OgmoProjectLayer")
      (entities: "OgmoEntityData list option")
  | Level_decal (projectLayer: "OgmoTileset OgmoProjectLayer")
      (decals: "OgmoDecalData list option")

record OgmoLevelApi =
  level_size :: Vector
  level_offset :: Vector
  level_values :: "any option"
  level_layers :: "OgmoLevelLayer list"

subsection \<open>The default decal component\<close>

datatype Polygon = Rectangle real real

text \<open>The argument object of \<open>Geometry\<close>; \<open>rotation\<close> may be \<open>undefined\<close>.\<close>

record Geometry_args =
  shape :: Polygon
  position :: Vector
  rotation :: "real option"
  scale :: Vector

text \<open>
  \<open>OgmoDecal\<close>: the \<open>Geometry\<close> and \<open>Image\<close> components it creates. What happens once
  the image has loaded (the shape is replaced) is not modelled.
\<close>

record OgmoDecal_components =
  geometry :: Geometry_args
  image_url :: string

definition OgmoDecal :: "OgmoDecalData \<Rightarrow> OgmoDecal_components" where
  "OgmoDecal decalData =
     \<lparr> geometry =
         \<lparr> shape = Rectangle 1 1,
           position = \<lparr> vector_x = d_x decalData, vector_y = d_y decalData \<rparr>,
           rotation = d_rotation decalData,
           scale = \<lparr> vector_x = (case d_scaleX decalData of None \<Rightarrow> 1 | Some s \<Rightarrow> s),
                     vector_y = (case d_scaleY decalData of None \<Rightarrow> 1 | Some s \<Rightarrow> s) \<rparr> \<rparr>,
       image_url = d_texture decalData \<rparr>"

text \<open>
  What a decal factory gives: the entity of a caller-supplied factory, or the child
  entity that \<open>defaultDecalFactory\<close> creates around \<open>OgmoDecal\<close>.
\<close>

datatype 'e decal_entity = Custom_decal 'e | Default_decal OgmoDecal_components

definition defaultDecalFactory :: "OgmoDecalData \<Rightarrow> 'e decal_entity" where
  "defaultDecalFactory decalData = Default_decal (OgmoDecal decalData)"

subsection \<open>The project\<close>

text \<open>
  \<open>entityFactories\<close> is a plain object used as a map from entity names to factories,
  \<open>{}\<close> by default, and \<open>entityFactories[data.name]\<close> is a property read: it finds
  the object's own property of that name, or else the property of that name that
  every plain object inherits from \<open>Object.prototype\<close>. The own properties are the
  map; the inherited names are the twelve below.
\<close>

definition Object_prototype_keys :: "string list" where
  "Object_prototype_keys =
     [''constructor'', ''hasOwnProperty'', ''isPrototypeOf'', ''propertyIsEnumerable'',
      ''toLocaleString'', ''toString'', ''valueOf'', ''__proto__'',
      ''__defineGetter__'', ''__defineSetter__'', ''__lookupGetter__'', ''__lookupSetter__'']"

datatype 'f property = Own 'f | Inherited string

definition get_property :: "(string \<rightharpoonup> 'f) \<Rightarrow> string \<Rightarrow> 'f property option" where
  "get_property obj key =
     (case obj key of
        Some f \<Rightarrow> Some (Own f)
      | None \<Rightarrow> if key \<in> set Object_prototype_keys then Some (Inherited key) else None)"

text \<open>
  What \<open>createEntity\<close> can return: the entity a factory made, or, when the property
  read found an inherited built-in, what that built-in returns when it is called as
  \<open>f(data)\<close>, with no receiver: \<open>Object(data)\<close> is \<open>data\<close> itself,
  \<open>Object.prototype.toString\<close> gives \<open>"[object Undefined]"\<close>, and each of the others
  throws a TypeError (as does calling the value of \<open>__proto__\<close>, which is not a
  function).
\<close>

datatype 'e js_value = Entity 'e | Data_object OgmoEntityData | String_value string

definition call_inherited :: "string \<Rightarrow> OgmoEntityData \<Rightarrow> error + 'e js_value" where
  "call_inherited key entData =
     (if key = ''constructor'' then Inr (Data_object entData)
      else if key = ''toString'' then Inr (String_value ''[object Undefined]'')
      else Inl TypeError)"

text \<open>
  The arrow function \<open>createEntity\<close> of the project object. Every value the property
  read can find is truthy, so the else branch is the case of no property at all.
\<close>

definition project_createEntity ::
  "(string \<rightharpoonup> (OgmoEntityData \<Rightarrow> 'e)) \<Rightarrow> OgmoEntityData \<Rightarrow> error + 'e js_value" where
  "project_createEntity entityFactories entData =
     (case get_property entityFactories (e_name entData) of
        Some (Own factoryForName) \<Rightarrow> Inr (Entity (factoryForName entData))
      | Some (Inherited key) \<Rightarrow> call_inherited key entData
      | None \<Rightarrow> Inl (No_entity_factory (e_name entData)))"

record 'e OgmoProjectApi =
  createEntity :: "OgmoEntityData \<Rightarrow> error + 'e js_value"
  createDecal :: "OgmoDecalData \<Rightarrow> 'e decal_entity"
  tilesets :: "OgmoTileset list"
  layers :: "OgmoTileset OgmoProjectLayer list"

text \<open>
  \<open>array.map((element, index) => ...)\<close> with a callback that may throw: the elements
  are mapped in order, from the index given, and the first exception ends the call.
\<close>

fun Array_map :: "(nat \<Rightarrow> 'a \<Rightarrow> error + 'b) \<Rightarrow> nat \<Rightarrow> 'a list \<Rightarrow> error + 'b list" where
  "Array_map f index [] = Inr []"
| "Array_map f index (element # rest) =
     (case f index element of
        Inl e \<Rightarrow> Inl e
      | Inr b \<Rightarrow>
          (case Array_map f (index + 1) rest of
             Inl e \<Rightarrow> Inl e
           | Inr bs \<Rightarrow> Inr (b # bs)))"

definition parse_tileset :: "tileset_data \<Rightarrow> OgmoTileset" where
  "parse_tileset tileset =
     \<lparr> label = raw_label tileset,
       path = raw_path tileset,
       tileSize = \<lparr> vector_x = tileWidth tileset, vector_y = tileHeight tileset \<rparr>,
       tileSeparation =
         \<lparr> vector_x = tileSeparationX tileset, vector_y = tileSeparationY tileset \<rparr> \<rparr>"

text \<open>The callback of \<open>projectData.layers.map\<close>: the switch on \<open>layer.definition\<close>.\<close>

fun parse_project_layer ::
  "OgmoTileset list \<Rightarrow> nat \<Rightarrow> string OgmoProjectLayer \<Rightarrow> error + OgmoTileset OgmoProjectLayer"
  where
  "parse_project_layer project_tilesets index (OgmoProjectTileLayer n gs ex em am tilesetLabel) =
     (case find (\<lambda>tileset. label tileset = tilesetLabel) project_tilesets of
        None \<Rightarrow> Inl (No_default_tileset index tilesetLabel)
      | Some tileset \<Rightarrow> Inr (OgmoProjectTileLayer n gs ex em am tileset))"
| "parse_project_layer project_tilesets index (OgmoProjectGridLayer n gs ex am lg) =
     Inr (OgmoProjectGridLayer n gs ex am lg)"
| "parse_project_layer project_tilesets index (OgmoProjectEntityLayer n gs ex rt et) =
     Inr (OgmoProjectEntityLayer n gs ex rt et)"
| "parse_project_layer project_tilesets index (OgmoProjectDecalLayer n gs ex ii sc ro vs) =
     Inr (OgmoProjectDecalLayer n gs ex ii sc ro vs)"

text \<open>
  \<open>OgmoProject\<close>, up to the project object that \<open>useLevel\<close> hands to \<open>OgmoLevel\<close>; the
  object it returns has the same \<open>tilesets\<close> and \<open>layers\<close>. A factory of the caller is
  taken to return an entity.
\<close>

definition OgmoProject ::
  "project_data \<Rightarrow> (string \<rightharpoonup> (OgmoEntityData \<Rightarrow> 'e)) \<Rightarrow> (OgmoDecalData \<Rightarrow> 'e) option
     \<Rightarrow> error + 'e OgmoProjectApi" where
  "OgmoProject projectData entityFactories decalFactory =
     (let parsed_tilesets = map parse_tileset (raw_tilesets projectData)
      in case Array_map (parse_project_layer parsed_tilesets) 0 (raw_layers projectData) of
           Inl e \<Rightarrow> Inl e
         | Inr parsed_layers \<Rightarrow>
             Inr \<lparr> createEntity = project_createEntity entityFactories,
                   createDecal =
                     (case decalFactory of
                        Some factory \<Rightarrow> (\<lambda>decalData. Custom_decal (factory decalData))
                      | None \<Rightarrow> defaultDecalFactory),
                   tilesets = parsed_tilesets,
                   layers = parsed_layers \<rparr>)"

subsection \<open>The level\<close>

text \<open>
  \<open>grid.setData(items)\<close> on a new grid, for an \<open>items\<close> that may be \<open>undefined\<close>
  (iterating it then throws).
\<close>

definition new_grid_with ::
  "int \<Rightarrow> int \<Rightarrow> string val \<Rightarrow> string val list option \<Rightarrow> error + string Grid" where
  "new_grid_with rows columns dv items =
     (case Grid_new rows columns dv of
        Inl e \<Rightarrow> Inl e
      | Inr grid \<Rightarrow>
          (case items of
             None \<Rightarrow> Inl TypeError
           | Some its \<Rightarrow>
               (case setData its grid of
                  (Some e, grid') \<Rightarrow> Inl e
                | (None, grid') \<Rightarrow> Inr grid')))"

text \<open>The callback of \<open>levelData.layers.map\<close>.\<close>

definition parse_level_layer ::
  "'e OgmoProjectApi \<Rightarrow> nat \<Rightarrow> level_layer_data \<Rightarrow> error + OgmoLevelLayer" where
  "parse_level_layer project index layer =
     (case find (\<lambda>pl. exportID pl = raw_eid layer) (layers project) of
        None \<Rightarrow> Inl (No_project_layer index (raw_eid layer))
      | Some found \<Rightarrow>
          (case found of
             OgmoProjectTileLayer _ _ _ _ _ _ \<Rightarrow>
               (case new_grid_with (gridCellsX layer) (gridCellsY layer) (Number 0)
                       (map_option (map Number) (raw_data layer)) of
                  Inl e \<Rightarrow> Inl e
                | Inr grid \<Rightarrow> Inr (Level_tile found grid))
           | OgmoProjectGridLayer _ _ _ _ _ \<Rightarrow>
               (case new_grid_with (gridCellsX layer) (gridCellsY layer) (Other '''')
                       (map_option (map Other) (raw_grid layer)) of
                  Inl e \<Rightarrow> Inl e
                | Inr grid \<Rightarrow> Inr (Level_grid found grid))
           | OgmoProjectEntityLayer _ _ _ _ _ \<Rightarrow>
               Inr (Level_entity found (raw_entities layer))
           | OgmoProjectDecalLayer _ _ _ _ _ _ _ \<Rightarrow>
               Inr (Level_decal found (raw_decals layer))))"

text \<open>
  Realization calls collaborators; the model keeps a log of the calls, in order:
  the child entity of a layer with its name, the sprite sheet and tile map of a tile
  layer, and each call of \<open>project.createEntity\<close> and \<open>project.createDecal\<close> with its
  argument.
\<close>

datatype event =
    Use_child string
  | New_SpriteSheet string real real
  | New_TileMap "string Grid"
  | Call_createEntity OgmoEntityData
  | Call_createDecal OgmoDecalData

text \<open>
  The object literal \<open>{...entData, rotation: entData.rotation ? entData.rotation *
  (Math.PI / 180) : 0}\<close>; an absent rotation and the rotation 0 are falsy.
\<close>

definition with_rotation_in_radians :: "OgmoEntityData \<Rightarrow> OgmoEntityData" where
  "with_rotation_in_radians entData =
     entData\<lparr> e_rotation :=
       Some (case e_rotation entData of
               None \<Rightarrow> 0
             | Some r \<Rightarrow> if r = 0 then 0 else r * (pi / 180)) \<rparr>"

text \<open>\<open>layer.entities.forEach(...)\<close>: an exception of \<open>createEntity\<close> ends the loop.\<close>

fun create_entities ::
  "'e OgmoProjectApi \<Rightarrow> OgmoEntityData list \<Rightarrow> event list \<times> error option" where
  "create_entities project [] = ([], None)"
| "create_entities project (entData # rest) =
     (case createEntity project (with_rotation_in_radians entData) of
        Inl e \<Rightarrow> ([Call_createEntity (with_rotation_in_radians entData)], Some e)
      | Inr created \<Rightarrow>
          (case create_entities project rest of
             (calls, failure) \<Rightarrow>
               (Call_createEntity (with_rotation_in_radians entData) # calls, failure)))"

text \<open>The callback of \<open>layers.forEach\<close>: one child entity per layer.\<close>

fun realize_layer :: "'e OgmoProjectApi \<Rightarrow> OgmoLevelLayer \<Rightarrow> event list \<times> error option" where
  "realize_layer project (Level_tile pl grid) =
     (case pl of
        OgmoProjectTileLayer _ _ _ _ _ tileset \<Rightarrow>
          ([Use_child (name pl),
            New_SpriteSheet (path tileset) (vector_x (tileSize tileset))
              (vector_y (tileSize tileset)),
            New_TileMap grid], None)
      | _ \<Rightarrow> ([Use_child (name pl)], Some TypeError))"
| "realize_layer project (Level_grid pl grid) = ([Use_child (name pl)], None)"
| "realize_layer project (Level_entity pl ents) =
     (case ents of
        None \<Rightarrow> ([Use_child (name pl)], Some TypeError)
      | Some es \<Rightarrow>
          (case create_entities project es of
             (calls, failure) \<Rightarrow> (Use_child (name pl) # calls, failure)))"
| "realize_layer project (Level_decal pl decs) =
     (case decs of
        None \<Rightarrow> ([Use_child (name pl)], Some TypeError)
      | Some ds \<Rightarrow> (Use_child (name pl) # map Call_createDecal ds, None))"

fun realize_layers ::
  "'e OgmoProjectApi \<Rightarrow> OgmoLevelLayer list \<Rightarrow> event list \<times> error option" where
  "realize_layers project [] = ([], None)"
| "realize_layers project (layer # rest) =
     (case realize_layer project layer of
        (calls, Some e) \<Rightarrow> (calls, Some e)
      | (calls, None) \<Rightarrow>
          (case realize_layers project rest of
             (calls', failure) \<Rightarrow> (calls @ calls', failure)))"

text \<open>\<open>OgmoLevel\<close>: the log of the calls made, and the level or the exception.\<close>

definition OgmoLevel ::
  "'e OgmoProjectApi \<Rightarrow> level_data \<Rightarrow> event list \<times> (error + OgmoLevelApi)" where
  "OgmoLevel project levelData =
     (case Array_map (parse_level_layer project) 0 (raw_level_layers levelData) of
        Inl e \<Rightarrow> ([], Inl e)
      | Inr parsed \<Rightarrow>
          (case realize_layers project parsed of
             (calls, Some e) \<Rightarrow> (calls, Inl e)
           | (calls, None) \<Rightarrow>
               (calls,
                Inr \<lparr> level_size =
                        \<lparr> vector_x = raw_width levelData, vector_y = raw_height levelData \<rparr>,
                      level_offset =
                        \<lparr> vector_x = offsetX levelData, vector_y = offsetY levelData \<rparr>,
                      level_values = raw_values levelData,
                      level_layers = parsed \<rparr>)))"

subsection \<open>Documents used in examples\<close>

text \<open>
  A project document with one tileset and an entity, a tile and a decal layer, the
  project it parses to, layer instances and placement records for levels against it,
  and the same project with a factory registered for \<open>player\<close>.
\<close>

abbreviation ground_tileset :: tileset_data where
  "ground_tileset \<equiv>
     \<lparr> raw_label = ''ground'', raw_path = ''ground.png'', tileWidth = 16, tileHeight = 16,
       tileSeparationX = 0, tileSeparationY = 0 \<rparr>"

abbreviation cell_16 :: Vector where
  "cell_16 \<equiv> \<lparr> vector_x = 16, vector_y = 16 \<rparr>"

abbreviation project_doc :: "string \<Rightarrow> project_data" where
  "project_doc tilesetLabel \<equiv>
     \<lparr> raw_tilesets = [ground_tileset],
       raw_layers =
         [OgmoProjectEntityLayer ''actors'' cell_16 ''e1'' [] [],
          OgmoProjectTileLayer ''terrain'' cell_16 ''t1'' 0 0 tilesetLabel,
          OgmoProjectDecalLayer ''props'' cell_16 ''d1'' False True True []] \<rparr>"

abbreviation no_factories :: "string \<rightharpoonup> (OgmoEntityData \<Rightarrow> unit)" where
  "no_factories \<equiv> Map.empty"

abbreviation example_project :: "unit OgmoProjectApi" where
  "example_project \<equiv>
     \<lparr> createEntity = project_createEntity no_factories,
       createDecal = defaultDecalFactory,
       tilesets = [parse_tileset ground_tileset],
       layers =
         [OgmoProjectEntityLayer ''actors'' cell_16 ''e1'' [] [],
          OgmoProjectTileLayer ''terrain'' cell_16 ''t1'' 0 0 (parse_tileset ground_tileset),
          OgmoProjectDecalLayer ''props'' cell_16 ''d1'' False True True []] \<rparr>"

abbreviation tile_instance :: "int list \<Rightarrow> level_layer_data" where
  "tile_instance tile_indices \<equiv>
     \<lparr> raw_eid = ''t1'', gridCellsX = 1, gridCellsY = 1, raw_data = Some tile_indices,
       raw_grid = None, raw_entities = None, raw_decals = None \<rparr>"

abbreviation unknown_instance :: level_layer_data where
  "unknown_instance \<equiv>
     \<lparr> raw_eid = ''missing'', gridCellsX = 1, gridCellsY = 1, raw_data = None,
       raw_grid = None, raw_entities = Some [], raw_decals = None \<rparr>"

abbreviation level_doc :: "level_layer_data list \<Rightarrow> level_data" where
  "level_doc instances \<equiv>
     \<lparr> raw_width = 16, raw_height = 16, offsetX = 0, offsetY = 0, raw_values = None,
       raw_level_layers = instances \<rparr>"

abbreviation entity_named :: "string \<Rightarrow> real option \<Rightarrow> OgmoEntityData" where
  "entity_named nm rot \<equiv>
     \<lparr> e_name = nm, e_id = 1, e_eid = ''ent'', e_x = 0, e_y = 0, e_width = None,
       e_height = None, e_originX = None, e_originY = None, e_rotation = rot,
       e_flippedX = None, e_flippedY = None, e_values = None \<rparr>"

abbreviation decal_rotated :: "real option \<Rightarrow> OgmoDecalData" where
  "decal_rotated rot \<equiv>
     \<lparr> d_x = 0, d_y = 0, d_scaleX = None, d_scaleY = None, d_rotation = rot,
       d_texture = ''rock.png'', d_values = None \<rparr>"

abbreviation decal_instance :: "OgmoDecalData list \<Rightarrow> level_layer_data" where
  "decal_instance ds \<equiv>
     \<lparr> raw_eid = ''d1'', gridCellsX = 1, gridCellsY = 1, raw_data = None,
       raw_grid = None, raw_entities = None, raw_decals = Some ds \<rparr>"



section \<open>Properties of the grid\<close>

text \<open>
  At integer coordinates the bounds test is the comparison of integers, every
  coordinate that passes it is an array index, and no named property is read or
  written.
\<close>

lemma array_index_Integer:
  "array_index (Integer i) = (if 0 \<le> i then Some (nat i) else None)"
  by (simp add: array_index_def)

lemma out_of_bounds_int:
  "out_of_bounds g row column \<longleftrightarrow>
     row > x (gsize g) - 1 \<or> row < 0 \<or> column > y (gsize g) - 1 \<or> column < 0"
  by (simp add: out_of_bounds_def outside_def is_above_def is_below_def del: of_int_diff)

lemma get_at_int:
  "get_at row column g =
     (if out_of_bounds g row column then Inr (defaultValue g)
      else read_cell (data g) column row)"
  by (auto simp: get_at_def get_row_column_def out_of_bounds_def [symmetric]
      out_of_bounds_int read_element_def array_index_Integer)

lemma set_at_int:
  "set_at row column v g =
     (if out_of_bounds g row column
      then (Some (Grid_out_of_bounds (x (gsize g)) (y (gsize g)) row column), g)
      else (case write_cell (data g) column row v of
              Inl e \<Rightarrow> (Some e, g)
            | Inr d \<Rightarrow> (None, g\<lparr> data := d \<rparr>)))"
  by (auto simp: set_at_def set_row_column_def out_of_bounds_def [symmetric]
      out_of_bounds_int write_element_def array_index_Integer split: sum.splits)


lemma Grid_allocate_inv:
  "Grid_allocate rows columns dv = Inr g \<Longrightarrow> Grid_inv g"
  by (auto simp: Grid_allocate_def Grid_inv_def valid_array_length_def split: if_splits)

lemma Grid_allocate_fields:
  "Grid_allocate rows columns dv = Inr g \<Longrightarrow>
     gsize g = \<lparr> x = rows, y = columns \<rparr> \<and> defaultValue g = dv \<and>
     data g = replicate (nat columns) (replicate (nat rows) dv)"
  by (auto simp: Grid_allocate_def split: if_splits)

lemma get_at_in_bounds:
  "Grid_inv g \<Longrightarrow> \<not> out_of_bounds g row column \<Longrightarrow>
     get_at row column g = Inr (data g ! nat column ! nat row)"
  by (auto simp: get_at_int read_cell_def Grid_inv_def out_of_bounds_int)

lemma get_at_out_of_bounds:
  "out_of_bounds g row column \<Longrightarrow> get_at row column g = Inr (defaultValue g)"
  by (simp add: get_at_int)

lemma set_at_out_of_bounds:
  "out_of_bounds g row column \<Longrightarrow>
     set_at row column v g =
       (Some (Grid_out_of_bounds (x (gsize g)) (y (gsize g)) row column), g)"
  by (simp add: set_at_int)

lemma set_at_in_bounds:
  assumes "Grid_inv g" "\<not> out_of_bounds g row column"
  shows "set_at row column v g =
           (None, g\<lparr> data := (data g)[nat column := (data g ! nat column)[nat row := v]] \<rparr>)"
  using assms
  by (auto simp: set_at_int write_cell_def array_store_def Grid_inv_def out_of_bounds_int)

lemma set_at_in_bounds_inv:
  assumes "Grid_inv g" "\<not> out_of_bounds g row column"
  shows "Grid_inv (snd (set_at row column v g))"
  using assms
  apply (simp add: set_at_in_bounds)
  apply (auto simp: Grid_inv_def out_of_bounds_int dest!: set_update_subset_insert [THEN subsetD])
  done

text \<open>
  \<open>set\<close> keeps the representation invariant at every pair of numbers: it writes a
  cell inside the bounds, or a named property, or nothing.
\<close>

lemma array_index_Some:
  "array_index a = Some n \<Longrightarrow> a = Integer (int n)"
  by (cases a) (auto simp: array_index_def split: if_splits)

lemma set_row_column_inv:
  assumes "Grid_inv g"
  shows "Grid_inv (snd (set_row_column row column v g))"
proof (cases "array_index column")
  case None
  then show ?thesis
    using assms by (simp add: set_row_column_def write_element_def)
next
  case (Some c)
  note column = array_index_Some [OF this]
  show ?thesis
  proof (cases "array_index row")
    case None
    then show ?thesis
      using assms Some by (simp add: set_row_column_def write_element_def Grid_inv_def)
  next
    case (Some r)
    note row = array_index_Some [OF this]
    have "set_row_column row column v g = set_at (int r) (int c) v g"
      by (simp add: set_at_def row column)
    then show ?thesis
      using assms set_at_in_bounds_inv [of g "int r" "int c" v]
        set_at_out_of_bounds [of g "int r" "int c" v]
      by (cases "out_of_bounds g (int r) (int c)") simp_all
  qed
qed

lemma set_at_in_bounds_get:
  assumes "Grid_inv g" "\<not> out_of_bounds g row column"
  shows "get_at row' column' (snd (set_at row column v g)) =
           (if row' = row \<and> column' = column then Inr v else get_at row' column' g)"
proof (cases "out_of_bounds g row' column'")
  case True
  with assms show ?thesis
    by (auto simp: set_at_in_bounds get_at_int out_of_bounds_int)
next
  case False
  with assms show ?thesis
    by (auto simp: set_at_in_bounds get_at_int out_of_bounds_int read_cell_def Grid_inv_def
        nth_list_update nat_eq_iff)
qed

lemma cell_index_unique:
  fixes w :: int
  assumes "0 \<le> r" "r < w" "0 \<le> r'" "r' < w" "c * w + r = c' * w + r'"
  shows "c = c' \<and> r = r'"
proof -
  have "w \<noteq> 0" using assms by simp
  then have "(c * w + r) div w = c + r div w" "(c' * w + r') div w = c' + r' div w"
    by (rule div_mult_self3)+
  with assms have "c = c'" by simp
  with assms(5) show ?thesis by simp
qed

lemma cell_index_less:
  fixes w :: int
  assumes "0 \<le> r" "r < w" "c < h"
  shows "c * w + r < w * h"
proof -
  have "(c + 1) * w \<le> h * w"
    using assms by (intro mult_right_mono) auto
  with assms show ?thesis by (simp add: algebra_simps)
qed

lemma cell_index_row:
  fixes w :: int
  assumes "0 < w" "0 \<le> r" "c * w + r < w * h"
  shows "c < h"
proof (rule ccontr)
  assume "\<not> c < h"
  then have "h * w \<le> c * w"
    using assms(1) by (intro mult_right_mono) auto
  with assms show False by (simp add: algebra_simps)
qed

lemma set_cell_Num [simp]:
  "set_cell (Num row) (Number column) v g = set_at row column v g"
  by (simp add: set_cell_def)

lemma get_Num [simp]: "get (Num row) (Some column) g = get_at row column g"
  by (simp add: get_def)

lemma set_at_in_bounds_fields:
  assumes "Grid_inv g" "\<not> out_of_bounds g row column"
  shows "gsize (snd (set_at row column v g)) = gsize g"
    and "defaultValue (snd (set_at row column v g)) = defaultValue g"
    and "fst (set_at row column v g) = None"
  using assms by (simp_all add: set_at_in_bounds)

lemma setData_loop_spec:
  assumes "Grid_inv g" "x (gsize g) = w" "y (gsize g) = h" "1 \<le> w"
    and "0 \<le> cx" "cx \<le> w" "0 \<le> cy" "cy * w + cx = p" "p \<le> w * h"
  shows "\<exists>g'. setData_loop items cx cy g =
            ((if p + int (length items) \<le> w * h then None
              else Some (Grid_out_of_bounds w h 0 h)), g') \<and>
          Grid_inv g' \<and> gsize g' = gsize g \<and> defaultValue g' = defaultValue g \<and>
          (\<forall>row column. get_at row column g' =
             (if \<not> out_of_bounds g row column \<and> p \<le> column * w + row \<and>
                 column * w + row < p + int (length items)
              then Inr (items ! nat (column * w + row - p))
              else get_at row column g))"
  using assms
proof (induction items arbitrary: cx cy p g)
  case Nil
  then show ?case by auto
next
  case (Cons item items)
  define r0 where "r0 = (if cx + 1 > w then 0 else cx)"
  define c0 where "c0 = (if cx + 1 > w then cy + 1 else cy)"
  have pos: "c0 * w + r0 = p" "0 \<le> r0" "r0 < w" "0 \<le> c0"
    using Cons.prems by (auto simp: r0_def c0_def algebra_simps)
  have step: "setData_loop (item # items) cx cy g =
      (case set_at r0 c0 item g of
         (Some e, g') \<Rightarrow> (Some e, g')
       | (None, g') \<Rightarrow> setData_loop items (r0 + 1) c0 g')"
    unfolding r0_def c0_def using Cons.prems(2) by (simp add: Let_def)
  have bounded: "column * w + row < w * h" if "\<not> out_of_bounds g row column" for row column
    using that Cons.prems(2,3) by (intro cell_index_less) (auto simp: out_of_bounds_int)
  show ?case
  proof (cases "p < w * h")
    case False
    with Cons.prems have full: "p = w * h" by simp
    have "c0 * w + r0 = h * w + 0" using pos(1) full by (simp add: algebra_simps)
    with pos Cons.prems(4) have "c0 = h \<and> r0 = 0"
      by (intro cell_index_unique [of r0 w 0 c0 h]) auto
    then have oob: "out_of_bounds g r0 c0" "r0 = 0" "c0 = h"
      using Cons.prems(3) by (auto simp: out_of_bounds_int)
    have "setData_loop (item # items) cx cy g = (Some (Grid_out_of_bounds w h 0 h), g)"
      using oob Cons.prems(2,3) by (subst step) (simp add: set_at_out_of_bounds)
    moreover have "\<not> (\<not> out_of_bounds g row column \<and> p \<le> column * w + row)" for row column
      using bounded [of row column] full by auto
    ultimately show ?thesis using full Cons.prems(1) by auto
  next
    case True
    have "c0 < h" using pos True Cons.prems(4) by (intro cell_index_row [of w r0 c0 h]) auto
    then have inb: "\<not> out_of_bounds g r0 c0"
      using pos Cons.prems(2,3) by (auto simp: out_of_bounds_int)
    define g1 where "g1 = snd (set_at r0 c0 item g)"
    have g1: "set_at r0 c0 item g = (None, g1)" "Grid_inv g1" "gsize g1 = gsize g"
      "defaultValue g1 = defaultValue g"
      using set_at_in_bounds_fields [OF Cons.prems(1) inb, of item]
        set_at_in_bounds_inv [OF Cons.prems(1) inb, of item]
      by (simp_all add: g1_def prod_eq_iff)
    have g1_get: "get_at row column g1 =
        (if row = r0 \<and> column = c0 then Inr item else get_at row column g)" for row column
      unfolding g1_def by (rule set_at_in_bounds_get [OF Cons.prems(1) inb])
    have oob1: "out_of_bounds g1 row column = out_of_bounds g row column" for row column
      by (simp add: out_of_bounds_int g1)
    have "\<exists>g'. setData_loop items (r0 + 1) c0 g1 =
            ((if (p + 1) + int (length items) \<le> w * h then None
              else Some (Grid_out_of_bounds w h 0 h)), g') \<and>
          Grid_inv g' \<and> gsize g' = gsize g1 \<and> defaultValue g' = defaultValue g1 \<and>
          (\<forall>row column. get_at row column g' =
             (if \<not> out_of_bounds g1 row column \<and> p + 1 \<le> column * w + row \<and>
                 column * w + row < (p + 1) + int (length items)
              then Inr (items ! nat (column * w + row - (p + 1)))
              else get_at row column g1))"
      using g1 pos True Cons.prems(2,3,4)
      by (intro Cons.IH) (auto simp: algebra_simps)
    then obtain g' where g':
      "setData_loop items (r0 + 1) c0 g1 =
            ((if (p + 1) + int (length items) \<le> w * h then None
              else Some (Grid_out_of_bounds w h 0 h)), g')"
      "Grid_inv g'" "gsize g' = gsize g1" "defaultValue g' = defaultValue g1"
      "\<And>row column. get_at row column g' =
             (if \<not> out_of_bounds g1 row column \<and> p + 1 \<le> column * w + row \<and>
                 column * w + row < (p + 1) + int (length items)
              then Inr (items ! nat (column * w + row - (p + 1)))
              else get_at row column g1)"
      by blast
    have run: "setData_loop (item # items) cx cy g =
        ((if p + int (length (item # items)) \<le> w * h then None
          else Some (Grid_out_of_bounds w h 0 h)), g')"
      by (subst step) (simp add: g1(1) g'(1) add.assoc)
    have cells: "get_at row column g' =
        (if \<not> out_of_bounds g row column \<and> p \<le> column * w + row \<and>
            column * w + row < p + int (length (item # items))
         then Inr ((item # items) ! nat (column * w + row - p))
         else get_at row column g)" for row column
    proof (cases "row = r0 \<and> column = c0")
      case True
      then show ?thesis using pos inb by (simp add: g'(5) g1_get oob1)
    next
      case neq: False
      show ?thesis
      proof (cases "out_of_bounds g row column")
        case True
        then show ?thesis using neq by (auto simp: g'(5) g1_get oob1)
      next
        case False
        then have "0 \<le> row" "row < w" using Cons.prems(2) by (auto simp: out_of_bounds_int)
        then have "column * w + row \<noteq> p"
          using cell_index_unique [of row w r0 column c0] pos neq by auto
        moreover have "nat (column * w + row - (p + 1)) = nat (column * w + row - p) - Suc 0"
          by arith
        ultimately show ?thesis
          using False neq
          by (auto simp: g'(5) g1_get oob1 nth_Cons' split: if_splits)
      qed
    qed
    show ?thesis
      by (rule exI [of _ g']) (simp only: run g'(2,3,4) g1(3,4) cells simp_thms)
  qed
qed

lemma out_of_bounds_iff:
  "out_of_bounds g row column \<longleftrightarrow>
     \<not> (0 \<le> row \<and> row < x (gsize g) \<and> 0 \<le> column \<and> column < y (gsize g))"
  by (auto simp: out_of_bounds_int)

lemma setData_spec:
  assumes "Grid_inv g" "x (gsize g) = w" "y (gsize g) = h"
  shows "\<exists>g'. setData items g =
            ((if int (length items) \<le> w * h then None
              else Some (Grid_out_of_bounds w h 0 (if 1 \<le> w then h else 1))), g') \<and>
          Grid_inv g' \<and> gsize g' = gsize g \<and> defaultValue g' = defaultValue g \<and>
          (\<forall>row column. get_at row column g' =
             (if \<not> out_of_bounds g row column \<and> column * w + row < int (length items)
              then Inr (items ! nat (column * w + row))
              else get_at row column g))"
proof (cases "1 \<le> w")
  case True
  have h0: "0 \<le> h" using assms by (simp add: Grid_inv_def)
  then have "0 \<le> w * h" using True by simp
  have w0: "0 \<le> w" and e: "0 * w + 0 = (0::int)" using True by simp_all
  note loop = setData_loop_spec [where cx = 0 and cy = 0 and p = 0 and items = items,
      OF assms True order_refl w0 order_refl e \<open>0 \<le> w * h\<close>, unfolded add_0 diff_zero]
  from loop obtain g' where g':
    "setData_loop items 0 0 g =
       ((if int (length items) \<le> w * h then None else Some (Grid_out_of_bounds w h 0 h)), g')"
    "Grid_inv g'" "gsize g' = gsize g" "defaultValue g' = defaultValue g"
    "\<And>row column. get_at row column g' =
       (if \<not> out_of_bounds g row column \<and> 0 \<le> column * w + row \<and>
           column * w + row < int (length items)
        then Inr (items ! nat (column * w + row))
        else get_at row column g)"
    by blast
  have nonneg: "0 \<le> column * w + row" if "\<not> out_of_bounds g row column" for row column
    using that True by (simp add: out_of_bounds_int)
  have "get_at row column g' =
       (if \<not> out_of_bounds g row column \<and> column * w + row < int (length items)
        then Inr (items ! nat (column * w + row))
        else get_at row column g)" for row column
    using nonneg [of row column] by (auto simp: g'(5))
  then show ?thesis
    using True g'(1-4) by (intro exI [of _ g']) (simp add: setData_def)
next
  case False
  have empty: "out_of_bounds g row column" for row column
    using False assms(2) by (auto simp: out_of_bounds_int)
  have "w * h = 0"
    using False assms by (cases "h = 0") (auto simp: Grid_inv_def)
  moreover have "setData items g =
      ((if items = [] then None else Some (Grid_out_of_bounds w h 0 1)), g)"
    using False assms(2,3) empty [of 0 1]
    by (cases items) (simp_all add: setData_def set_at_out_of_bounds)
  ultimately show ?thesis
    using False assms(1) empty by (intro exI [of _ g]) auto
qed

lemma Grid_new_fill:
  assumes "Grid_new rows columns dv = Inr g"
  shows "Grid_inv g" and "gsize g = \<lparr> x = rows, y = columns \<rparr>" and "defaultValue g = dv"
    and "0 \<le> row \<Longrightarrow> row < rows \<Longrightarrow> 0 \<le> column \<Longrightarrow> column < columns \<Longrightarrow>
           get (Num row) (Some column) g = Inr dv"
proof -
  from assms have alloc: "Grid_allocate rows columns dv = Inr g"
    by (simp add: Grid_new_def Grid_constructor_def)
  show inv: "Grid_inv g" by (rule Grid_allocate_inv [OF alloc])
  show "gsize g = \<lparr> x = rows, y = columns \<rparr>" "defaultValue g = dv"
    using Grid_allocate_fields [OF alloc] by simp_all
  show "get (Num row) (Some column) g = Inr dv"
    if "0 \<le> row" "row < rows" "0 \<le> column" "column < columns"
    using that Grid_allocate_fields [OF alloc] get_at_in_bounds [OF inv, of row column]
    by (simp add: out_of_bounds_int)
qed

lemma Grid_new_succeeds:
  "valid_array_length columns \<Longrightarrow> valid_array_length rows \<Longrightarrow>
     \<exists>g. Grid_new rows columns dv = Inr g"
  by (simp add: Grid_new_def Grid_constructor_def Grid_allocate_def)

lemma Grid_new_extent_default:
  "Grid_new_extent rowsAndCols dv = Inr g \<Longrightarrow> defaultValue g = Undefined"
  by (auto simp: Grid_new_extent_def Grid_constructor_def dest: Grid_allocate_fields)

text \<open>
  C1. The claim: both constructor overloads give a grid whose stored default value
  is the supplied one and whose every in-bounds cell reads as it. The overload
  \<open>new Grid(rowsAndCols, defaultValue)\<close> does not: its else branch takes the default
  from the third parameter, which that overload never passes. Evaluated at
  \<open>new Grid(new Point(2, 1), 7)\<close>: the grid is built, its stored default is
  \<open>undefined\<close>, and so is what \<open>get(0, 0)\<close> and \<open>get(1, 0)\<close> return.
\<close>

theorem C1_extent_overload_drops_default:
  "Grid_new_extent \<lparr> x = 2, y = 1 \<rparr> (Number 7) =
     Inr \<lparr> gsize = \<lparr> x = 2, y = 1 \<rparr>, data = [[Undefined, Undefined]],
           defaultValue = (Undefined :: unit val), named_properties = [] \<rparr>
   \<and> get (Num 0) (Some 0)
        \<lparr> gsize = \<lparr> x = 2, y = 1 \<rparr>, data = [[Undefined, Undefined]],
          defaultValue = (Undefined :: unit val), named_properties = [] \<rparr> = Inr Undefined
   \<and> get (Num 1) (Some 0)
        \<lparr> gsize = \<lparr> x = 2, y = 1 \<rparr>, data = [[Undefined, Undefined]],
          defaultValue = (Undefined :: unit val), named_properties = [] \<rparr> = Inr Undefined"
  by (simp add: Grid_new_extent_def Grid_constructor_def Grid_allocate_def
      valid_array_length_def get_def get_at_int out_of_bounds_int read_cell_def
      numeral_2_eq_2)

lemma Grid_new_3_2: "Grid_new 3 2 (Number 0) = Inr grid_3_2"
  by (simp add: Grid_new_def Grid_constructor_def Grid_allocate_def valid_array_length_def
      numeral_2_eq_2 numeral_3_eq_3)

lemma Grid_inv_grid_3_2: "Grid_inv grid_3_2"
  by (simp add: Grid_inv_def)

text \<open>
  C2. For a grid of width \<open>w = size.x\<close> and height \<open>h = size.y\<close>, \<open>setData\<close> puts
  element \<open>k\<close> of the input at \<open>(row, column) = (k mod w, k div w)\<close>, which is where
  the wrapping cursor stands, for every \<open>k\<close> below the capacity \<open>w * h\<close>. With
  at most \<open>w * h\<close> elements it does not fail, and the in-bounds cells from the input's
  length on keep what they held (the default value, in a grid just constructed); with
  more it fails with the out-of-bounds error of \<open>set\<close>, raised for row 0 of column
  \<open>h\<close> (of column 1 when the grid has no width). Size and default value stay as
  they were.
\<close>

theorem C2_setData_row_wrap:
  assumes "Grid_inv g"
  shows "(int (length items) \<le> x (gsize g) * y (gsize g) \<longrightarrow> fst (setData items g) = None)
    \<and> (x (gsize g) * y (gsize g) < int (length items) \<longrightarrow>
         fst (setData items g) =
           Some (Grid_out_of_bounds (x (gsize g)) (y (gsize g)) 0
                  (if 1 \<le> x (gsize g) then y (gsize g) else 1)))
    \<and> (\<forall>k. k < length items \<and> int k < x (gsize g) * y (gsize g) \<longrightarrow>
         get (Num (int k mod x (gsize g))) (Some (int k div x (gsize g)))
           (snd (setData items g)) = Inr (items ! k))
    \<and> (\<forall>row column.
         0 \<le> row \<and> row < x (gsize g) \<and> 0 \<le> column \<and> column < y (gsize g) \<and>
         int (length items) \<le> column * x (gsize g) + row \<longrightarrow>
         get (Num row) (Some column) (snd (setData items g)) = get (Num row) (Some column) g)
    \<and> gsize (snd (setData items g)) = gsize g
    \<and> defaultValue (snd (setData items g)) = defaultValue g"
proof -
  define w h where "w = x (gsize g)" and "h = y (gsize g)"
  obtain g' where g':
    "setData items g =
       ((if int (length items) \<le> w * h then None
         else Some (Grid_out_of_bounds w h 0 (if 1 \<le> w then h else 1))), g')"
    "gsize g' = gsize g" "defaultValue g' = defaultValue g"
    "\<And>row column. get_at row column g' =
       (if \<not> out_of_bounds g row column \<and> column * w + row < int (length items)
        then Inr (items ! nat (column * w + row))
        else get_at row column g)"
    using setData_spec [OF assms, of w h items] by (auto simp: w_def h_def)
  have h0: "0 \<le> h" using assms by (simp add: Grid_inv_def h_def)
  have placed: "get_at (int k mod w) (int k div w) g' = Inr (items ! k)"
    if k: "k < length items" "int k < w * h" for k
  proof -
    have w1: "0 < w"
    proof (rule ccontr)
      assume "\<not> 0 < w"
      then have "w * h \<le> 0" using h0 by (simp add: mult_le_0_iff)
      with k show False by simp
    qed
    then have row: "0 \<le> int k mod w" "int k mod w < w" by simp_all
    have idx: "int k div w * w + int k mod w = int k" by simp
    then have "int k div w < h"
      using cell_index_row [OF w1 row(1), of "int k div w" h] k by simp
    moreover have "0 \<le> int k div w" using w1 by (simp add: pos_imp_zdiv_nonneg_iff)
    ultimately have "\<not> out_of_bounds g (int k mod w) (int k div w)"
      using row by (simp add: out_of_bounds_int w_def h_def)
    then show ?thesis using k idx by (simp add: g'(4))
  qed
  have kept: "get_at row column g' = get_at row column g"
    if "int (length items) \<le> column * w + row" for row column
    using that by (simp add: g'(4))
  show ?thesis
    using placed kept by (simp add: g' w_def [symmetric] h_def [symmetric])
qed

theorem C2_setData_row_wrap_witness:
  "Grid_new 3 2 (Number 0) = Inr grid_3_2
   \<and> fst (setData one_to_six grid_3_2) = None
   \<and> get (Num 0) (Some 0) (snd (setData one_to_six grid_3_2)) = Inr (Number 1)
   \<and> get (Num 1) (Some 0) (snd (setData one_to_six grid_3_2)) = Inr (Number 2)
   \<and> get (Num 2) (Some 0) (snd (setData one_to_six grid_3_2)) = Inr (Number 3)
   \<and> get (Num 0) (Some 1) (snd (setData one_to_six grid_3_2)) = Inr (Number 4)
   \<and> get (Num 1) (Some 1) (snd (setData one_to_six grid_3_2)) = Inr (Number 5)
   \<and> get (Num 2) (Some 1) (snd (setData one_to_six grid_3_2)) = Inr (Number 6)
   \<and> get (Num 2) (Some 1) (snd (setData [Number 1, Number 2] grid_3_2)) = Inr (Number 0)
   \<and> fst (setData (one_to_six @ [Number 7]) grid_3_2) = Some (Grid_out_of_bounds 3 2 0 2)"
proof -
  have "get (Num 2) (Some 1) (snd (setData [Number 1, Number 2] grid_3_2)) = Inr (Number 0)"
    using C2_setData_row_wrap [OF Grid_inv_grid_3_2, of "[Number 1, Number 2]",
        THEN conjunct2, THEN conjunct2, THEN conjunct2, THEN conjunct1, rule_format, of 2 1]
    by (simp add: get_at_int out_of_bounds_int read_cell_def)
  moreover
  have "fst (setData (one_to_six @ [Number 7]) grid_3_2) = Some (Grid_out_of_bounds 3 2 0 2)"
    using C2_setData_row_wrap [OF Grid_inv_grid_3_2, of "one_to_six @ [Number 7]",
        THEN conjunct2, THEN conjunct1]
    by simp
  moreover
  note row_wrap = C2_setData_row_wrap [OF Grid_inv_grid_3_2, of one_to_six]
  note placed = row_wrap [THEN conjunct2, THEN conjunct2, THEN conjunct1, rule_format]
  have "fst (setData one_to_six grid_3_2) = None"
    using row_wrap [THEN conjunct1] by simp
  moreover have "get (Num 0) (Some 0) (snd (setData one_to_six grid_3_2)) = Inr (Number 1)"
    using placed [of 0] by simp
  moreover have "get (Num 1) (Some 0) (snd (setData one_to_six grid_3_2)) = Inr (Number 2)"
    using placed [of 1] by simp
  moreover have "get (Num 2) (Some 0) (snd (setData one_to_six grid_3_2)) = Inr (Number 3)"
    using placed [of 2] by simp
  moreover have "get (Num 0) (Some 1) (snd (setData one_to_six grid_3_2)) = Inr (Number 4)"
    using placed [of 3] by simp
  moreover have "get (Num 1) (Some 1) (snd (setData one_to_six grid_3_2)) = Inr (Number 5)"
    using placed [of 4] by simp
  moreover have "get (Num 2) (Some 1) (snd (setData one_to_six grid_3_2)) = Inr (Number 6)"
    using placed [of 5] by simp
  ultimately show ?thesis using Grid_new_3_2 by simp
qed

lemma get_Pt [simp]: "get (Pt pos) maybeColumn g = get_at (x pos) (y pos) g"
  by (simp add: get_def)

lemma set_cell_Pt [simp]:
  "set_cell (Pt pos) columnOrValue maybeValue g = set_at (x pos) (y pos) columnOrValue g"
  by (simp add: set_cell_def)


text \<open>
  C4, as claimed: for every \<open>(row, column)\<close> outside \<open>[0, size.x) \<times> [0, size.y)\<close>,
  \<open>get\<close> returns the default value and never fails and \<open>set\<close> fails with the
  out-of-bounds error; inside, \<open>get\<close> returns the stored value and \<open>set\<close> writes
  without failing. Both take any number, and the bounds test compares without asking
  for an integer. On \<open>Grid(3, 2, 0)\<close>: at \<open>(0, 0.5)\<close>, which lies inside, the bounds
  test passes, \<open>data[0.5]\<close> is \<open>undefined\<close>, and \<open>get\<close> and \<open>set\<close> both throw a
  TypeError; at \<open>(NaN, 0)\<close>, which lies outside, every comparison is false, so \<open>get\<close>
  returns \<open>data[0][NaN]\<close>, which is \<open>undefined\<close> and not the default 0, and \<open>set\<close>
  throws nothing and assigns to the property \<open>NaN\<close> of the inner array, which is no
  cell; at \<open>(0, NaN)\<close>, outside as well, \<open>get\<close> throws a TypeError.
\<close>

theorem C4_non_integer_coordinates_counterexample:
  "get_row_column (Finite 0) (Finite (1 / 2)) grid_3_2 = Inl TypeError
   \<and> fst (set_row_column (Finite 0) (Finite (1 / 2)) (Number 9) grid_3_2) = Some TypeError
   \<and> get_row_column NaN (Finite 0) grid_3_2 = Inr Undefined
   \<and> get_row_column NaN (Finite 0) grid_3_2 \<noteq> Inr (defaultValue grid_3_2)
   \<and> set_row_column NaN (Finite 0) (Number 9) grid_3_2 =
       (None, grid_3_2\<lparr> named_properties := [((0, NaN), Number 9)] \<rparr>)
   \<and> get_row_column (Finite 0) NaN grid_3_2 = Inl TypeError"
  by (simp add: get_row_column_def set_row_column_def outside_def is_above_def is_below_def
      read_element_def write_element_def array_index_def)

text \<open>
  C4, amended to integer coordinates. For integers \<open>row\<close> and \<open>column\<close> outside
  \<open>[0, size.x) \<times> [0, size.y)\<close>, \<open>get(row, column)\<close> returns the grid's default value
  and does not throw, and \<open>set(row, column, value)\<close> throws the out-of-bounds error,
  which carries the grid's size and the two coordinates. For integers inside, \<open>get\<close>
  returns the cell \<open>data[column][row]\<close>, \<open>set\<close> does not throw, and a \<open>get\<close> of the
  same cell afterwards returns the value written. The overloaded members \<open>get\<close> and
  \<open>set\<close>, called with two integers or with a \<open>Point\<close> of them, do just that.
\<close>

theorem C4_lenient_get_strict_set:
  "(\<not> (0 \<le> row \<and> row < x (gsize g) \<and> 0 \<le> column \<and> column < y (gsize g)) \<longrightarrow>
      get_row_column (Integer row) (Integer column) g = Inr (defaultValue g) \<and>
      fst (set_row_column (Integer row) (Integer column) v g) =
        Some (Set_out_of_bounds (x (gsize g)) (y (gsize g)) (Integer row) (Integer column)))
   \<and> (Grid_inv g \<and> 0 \<le> row \<and> row < x (gsize g) \<and> 0 \<le> column \<and> column < y (gsize g) \<longrightarrow>
      get_row_column (Integer row) (Integer column) g = Inr (data g ! nat column ! nat row) \<and>
      fst (set_row_column (Integer row) (Integer column) v g) = None \<and>
      get_row_column (Integer row) (Integer column)
        (snd (set_row_column (Integer row) (Integer column) v g)) = Inr v)
   \<and> get (Num row) (Some column) g = get_row_column (Integer row) (Integer column) g
   \<and> set_cell (Num row) (Number column) v g =
       set_row_column (Integer row) (Integer column) v g
   \<and> get (Pt \<lparr> x = row, y = column \<rparr>) None g =
       get_row_column (Integer row) (Integer column) g
   \<and> set_cell (Pt \<lparr> x = row, y = column \<rparr>) v Undefined g =
       set_row_column (Integer row) (Integer column) v g"
proof -
  have outside: "get_at row column g = Inr (defaultValue g) \<and>
      fst (set_at row column v g) =
        Some (Grid_out_of_bounds (x (gsize g)) (y (gsize g)) row column)"
    if "out_of_bounds g row column"
    using that by (simp add: get_at_out_of_bounds set_at_out_of_bounds)
  have inside: "get_at row column g = Inr (data g ! nat column ! nat row) \<and>
      fst (set_at row column v g) = None \<and>
      get_at row column (snd (set_at row column v g)) = Inr v"
    if "Grid_inv g" "\<not> out_of_bounds g row column"
    using that
    by (simp add: get_at_in_bounds set_at_in_bounds_fields set_at_in_bounds_get)
  show ?thesis
    using outside inside
    by (simp add: out_of_bounds_iff get_at_def [symmetric] set_at_def [symmetric])
qed

theorem C4_lenient_get_strict_set_witness:
  "get_row_column (Finite 3) (Finite 0) grid_3_2 = Inr (Number 0)
   \<and> fst (set_row_column (Finite 3) (Finite 0) (Number 9) grid_3_2)
        = Some (Set_out_of_bounds 3 2 (Finite 3) (Finite 0))
   \<and> get_row_column (Finite 0) (Finite (- 1)) grid_3_2 = Inr (Number 0)
   \<and> fst (set_row_column (Finite 0) (Finite (- 1)) (Number 9) grid_3_2)
        = Some (Set_out_of_bounds 3 2 (Finite 0) (Finite (- 1)))
   \<and> get_row_column (Finite 2) (Finite 1) grid_3_2 = Inr (Number 0)
   \<and> fst (set_row_column (Finite 2) (Finite 1) (Number 9) grid_3_2) = None
   \<and> get_row_column (Finite 2) (Finite 1)
        (snd (set_row_column (Finite 2) (Finite 1) (Number 9) grid_3_2)) = Inr (Number 9)
   \<and> get (Num 2) (Some 1) grid_3_2 = Inr (Number 0)
   \<and> get (Pt \<lparr> x = 3, y = 0 \<rparr>) None grid_3_2 = Inr (Number 0)
   \<and> fst (set_cell (Num 3) (Number 0) (Number 9) grid_3_2)
        = Some (Set_out_of_bounds 3 2 (Finite 3) (Finite 0))
   \<and> fst (set_cell (Pt \<lparr> x = 2, y = 1 \<rparr>) (Number 9) Undefined grid_3_2) = None"
  using C4_lenient_get_strict_set [of 3 grid_3_2 0 "Number 9"]
    C4_lenient_get_strict_set [of 0 grid_3_2 "- 1" "Number 9"]
    C4_lenient_get_strict_set [of 2 grid_3_2 1 "Number 9"]
    Grid_inv_grid_3_2
  by (simp add: numeral_2_eq_2)



lemma arrive_in_bounds:
  assumes "Grid_inv g" "\<not> out_of_bounds g i j"
  shows "arrive (Some (i, j)) g = (Suspended_yield i j, Inr (Some (cell_triple g (i, j))))"
  using assms by (simp add: arrive_def get_at_in_bounds)

lemma traverse_Suspended_yield:
  "Grid_inv g \<Longrightarrow> gen = Suspended_yield i j \<Longrightarrow> \<not> out_of_bounds g i j \<Longrightarrow>
   traverse gen g =
     Inr (map (cell_triple g)
           (map (Pair i) [j + 1..y (gsize g) - 1] @
            List.product [i + 1..x (gsize g) - 1] [0..y (gsize g) - 1]))"
proof (induction gen g arbitrary: i j rule: traverse.induct)
  case (1 gen g)
  note inv = \<open>Grid_inv g\<close>
  from 1 have inb: "0 \<le> i" "i < x (gsize g)" "0 \<le> j" "j < y (gsize g)"
    by (auto simp: out_of_bounds_int)
  consider (column) "j + 1 < y (gsize g)"
    | (row) "\<not> j + 1 < y (gsize g)" "i + 1 < x (gsize g)"
    | (finished) "\<not> j + 1 < y (gsize g)" "\<not> i + 1 < x (gsize g)"
    by blast
  then show ?case
  proof cases
    case column
    then have next_inb: "\<not> out_of_bounds g i (j + 1)"
      using inb by (simp add: out_of_bounds_int)
    have step: "gen_next gen g =
        (Suspended_yield i (j + 1), Inr (Some (cell_triple g (i, j + 1))))"
      using column by (simp add: 1(3) inner_loop_closed arrive_in_bounds [OF inv next_inb])
    have rest: "traverse (Suspended_yield i (j + 1)) g =
        Inr (map (cell_triple g)
              (map (Pair i) [j + 1 + 1..y (gsize g) - 1] @
               List.product [i + 1..x (gsize g) - 1] [0..y (gsize g) - 1]))"
      by (rule "1.IH" [OF step [symmetric] refl refl inv refl next_inb])
    have "[j + 1..y (gsize g) - 1] = (j + 1) # [j + 1 + 1..y (gsize g) - 1]"
      using column by (simp add: upto_rec1)
    then show ?thesis
      by (subst traverse.simps) (simp add: step rest)
  next
    case row
    then have next_inb: "\<not> out_of_bounds g (i + 1) 0"
      using inb by (simp add: out_of_bounds_int)
    have step: "gen_next gen g =
        (Suspended_yield (i + 1) 0, Inr (Some (cell_triple g (i + 1, 0))))"
      using row inb
      by (simp add: 1(3) inner_loop_closed arrive_in_bounds [OF inv next_inb])
    have rest: "traverse (Suspended_yield (i + 1) 0) g =
        Inr (map (cell_triple g)
              (map (Pair (i + 1)) [0 + 1..y (gsize g) - 1] @
               List.product [i + 1 + 1..x (gsize g) - 1] [0..y (gsize g) - 1]))"
      by (rule "1.IH" [OF step [symmetric] refl refl inv refl next_inb])
    have "[j + 1..y (gsize g) - 1] = []"
      and "[i + 1..x (gsize g) - 1] = (i + 1) # [i + 1 + 1..x (gsize g) - 1]"
      and "[0..y (gsize g) - 1] = 0 # [0 + 1..y (gsize g) - 1]"
      using row inb by (simp_all add: upto_rec1)
    then show ?thesis
      by (subst traverse.simps) (simp add: step rest)
  next
    case finished
    have step: "gen_next gen g = (Completed, Inr None)"
      using finished by (simp add: 1(3) inner_loop_closed arrive_def)
    have "[j + 1..y (gsize g) - 1] = []" and "[i + 1..x (gsize g) - 1] = []"
      using finished by simp_all
    then show ?thesis
      by (subst traverse.simps) (simp add: step)
  qed
qed

lemma product_Nil_right: "List.product xs [] = []"
  by (induction xs) simp_all

lemma traverse_contents:
  assumes "Grid_inv g"
  shows "traverse (contents g) g =
     Inr (map (cell_triple g) (List.product [0..x (gsize g) - 1] [0..y (gsize g) - 1]))"
proof (cases "0 < x (gsize g) \<and> 0 < y (gsize g)")
  case True
  then have inb: "\<not> out_of_bounds g 0 0" by (simp add: out_of_bounds_int)
  have step: "gen_next (contents g) g =
      (Suspended_yield 0 0, Inr (Some (cell_triple g (0, 0))))"
    using True by (simp add: contents_def outer_loop_closed arrive_in_bounds [OF assms inb])
  have "[0..x (gsize g) - 1] = 0 # [0 + 1..x (gsize g) - 1]"
    and "[0..y (gsize g) - 1] = 0 # [0 + 1..y (gsize g) - 1]"
    using True by (simp_all add: upto_rec1)
  then show ?thesis
    by (subst traverse.simps)
      (simp add: step traverse_Suspended_yield [OF assms refl inb])
next
  case False
  then have "gen_next (contents g) g = (Completed, Inr None)"
    by (auto simp: contents_def outer_loop_closed arrive_def)
  moreover have "List.product [0..x (gsize g) - 1] [0..y (gsize g) - 1] = []"
    using False by (cases "0 < x (gsize g)") (simp_all add: product_Nil_right)
  ultimately show ?thesis
    by (subst traverse.simps) simp
qed

lemma setData_grid_3_2: "setData one_to_six grid_3_2 = (None, grid_3_2_loaded)"
  by (simp add: setData_def set_at_int out_of_bounds_int write_cell_def array_store_def)

lemma Grid_inv_grid_3_2_loaded: "Grid_inv grid_3_2_loaded"
  by (simp add: Grid_inv_def)

lemma upto_0_2: "[0..2] = [0, 1, 2::int]" and upto_0_1: "[0..1] = [0, 1::int]"
  by (simp_all add: upto.simps)

lemma traverse_grid_3_2_loaded:
  "traverse (contents grid_3_2_loaded) grid_3_2_loaded =
     Inr [(0, 0, Number 1), (0, 1, Number 4), (1, 0, Number 2),
          (1, 1, Number 5), (2, 0, Number 3), (2, 1, Number 6)]"
  using traverse_contents [OF Grid_inv_grid_3_2_loaded]
  by (simp add: upto_0_2 upto_0_1 numeral_2_eq_2)




lemma nth_upto_0: "int k < n \<Longrightarrow> [0..n - 1] ! k = int k"
  by (simp add: nth_upto)

lemma nth_cells:
  assumes "0 \<le> h" "k < nat w * nat h"
  shows "List.product [0..w - 1] [0..h - 1] ! k = (int k div h, int k mod h)"
proof -
  have h: "0 < h" using assms by (cases "h = 0") auto
  have "k div nat h < nat w"
    using assms(2) h by (simp add: less_mult_imp_div_less)
  then have row: "[0..w - 1] ! (k div nat h) = int (k div nat h)"
    by (intro nth_upto_0) auto
  have "k mod nat h < nat h" using h by simp
  then have column: "[0..h - 1] ! (k mod nat h) = int (k mod nat h)"
    by (intro nth_upto_0) auto
  show ?thesis
    using assms h by (simp add: product_nth row column zdiv_int zmod_int)
qed

text \<open>
  C3, as claimed: after \<open>setData(a)\<close> with \<open>a\<close> of length exactly \<open>w * h\<close>, the
  \<open>k\<close>-th value that \<open>contents()\<close> yields is \<open>a[k]\<close>. It is not: in the
  specification's own example, \<open>Grid(3, 2, 0)\<close> loaded with \<open>[1, 2, 3, 4, 5, 6]\<close>,
  the traversal yields the values \<open>1, 4, 2, 5, 3, 6\<close>, and the second of them is
  \<open>4\<close> where \<open>a[1]\<close> is \<open>2\<close>.
\<close>

theorem C3_round_trip_counterexample:
  "setData one_to_six grid_3_2 = (None, grid_3_2_loaded)
   \<and> traverse (contents grid_3_2_loaded) grid_3_2_loaded =
       Inr [(0, 0, Number 1), (0, 1, Number 4), (1, 0, Number 2),
            (1, 1, Number 5), (2, 0, Number 3), (2, 1, Number 6)]
   \<and> snd (snd ([(0, 0, Number 1), (0, 1, Number 4), (1, 0, Number 2),
                  (1, 1, Number 5), (2, 0, Number 3), (2, 1, Number 6 :: unit val)] ! 1))
       \<noteq> one_to_six ! 1"
  using setData_grid_3_2 traverse_grid_3_2_loaded by simp

text \<open>
  C3, amended. After \<open>setData(a)\<close> with \<open>a\<close> of length exactly \<open>w * h\<close>, which does
  not fail, \<open>contents()\<close> yields for every cell, rows outer and columns inner, the
  triple \<open>(row, column, a[column * w + row])\<close>. So the \<open>k\<close>-th triple yielded is that of
  row \<open>k div h\<close> and column \<open>k mod h\<close>, with the value \<open>a[(k mod h) * w + k div h]\<close>:
  the input is read back column by column of the scan-line layout, not in input
  order.
\<close>

theorem C3_contents_after_setData:
  assumes "Grid_inv g" "int (length items) = x (gsize g) * y (gsize g)"
  shows "fst (setData items g) = None
    \<and> traverse (contents (snd (setData items g))) (snd (setData items g)) =
        Inr (map (\<lambda>(i, j). (i, j, items ! nat (j * x (gsize g) + i)))
              (List.product [0..x (gsize g) - 1] [0..y (gsize g) - 1]))
    \<and> (\<forall>k < length items. \<exists>cells.
         traverse (contents (snd (setData items g))) (snd (setData items g)) = Inr cells \<and>
         cells ! k =
           (int k div y (gsize g), int k mod y (gsize g),
            items ! nat (int k mod y (gsize g) * x (gsize g) + int k div y (gsize g))))"
proof -
  define w h where "w = x (gsize g)" and "h = y (gsize g)"
  define cells where
    "cells = map (\<lambda>(i, j). (i, j, items ! nat (j * w + i))) (List.product [0..w - 1] [0..h - 1])"
  obtain g' where g':
    "setData items g = (None, g')" "Grid_inv g'" "gsize g' = gsize g"
    "\<And>row column. get_at row column g' =
       (if \<not> out_of_bounds g row column \<and> column * w + row < int (length items)
        then Inr (items ! nat (column * w + row))
        else get_at row column g)"
    using setData_spec [OF assms(1), of w h items] assms(2)
    by (auto simp: w_def h_def)
  have cell: "cell_triple g' (i, j) = (i, j, items ! nat (j * w + i))"
    if "(i, j) \<in> set (List.product [0..w - 1] [0..h - 1])" for i j
  proof -
    from that have inb: "\<not> out_of_bounds g i j"
      by (auto simp: out_of_bounds_int w_def h_def)
    then have "j * w + i < w * h"
      using cell_index_less [of i w j h] by (simp add: out_of_bounds_int w_def h_def)
    then have "get_at i j g' = Inr (items ! nat (j * w + i))"
      using inb assms(2) by (simp add: g'(4) w_def h_def)
    moreover have "get_at i j g' = Inr (data g' ! nat j ! nat i)"
      using inb by (intro get_at_in_bounds [OF g'(2)]) (simp add: out_of_bounds_int g'(3))
    ultimately show ?thesis by simp
  qed
  have "traverse (contents g') g' =
      Inr (map (cell_triple g') (List.product [0..w - 1] [0..h - 1]))"
    using traverse_contents [OF g'(2)] by (simp add: g'(3) w_def h_def)
  also have "map (cell_triple g') (List.product [0..w - 1] [0..h - 1]) = cells"
    unfolding cells_def using cell by (intro map_cong) auto
  finally have run: "traverse (contents g') g' = Inr cells" .
  have h0: "0 \<le> h" using assms(1) by (simp add: Grid_inv_def h_def)
  have count: "nat w * nat h = length items"
  proof (cases "0 \<le> w")
    case True
    then have "nat w * nat h = nat (w * h)" by (simp add: nat_mult_distrib)
    also have "\<dots> = nat (int (length items))" using assms(2) by (simp add: w_def h_def)
    finally show ?thesis by simp
  next
    case False
    then have "h = 0" using assms(1) by (auto simp: Grid_inv_def w_def h_def)
    then show ?thesis using assms(2) by (simp add: w_def h_def)
  qed
  have kth: "cells ! k = (int k div h, int k mod h, items ! nat (int k mod h * w + int k div h))"
    if "k < length items" for k
    using that count nth_cells [OF h0, of k w] by (simp add: cells_def)
  show ?thesis
    using run kth
    by (simp add: g'(1) cells_def w_def [symmetric] h_def [symmetric])
qed

theorem C3_contents_after_setData_witness:
  "fst (setData one_to_six grid_3_2) = None
   \<and> traverse (contents (snd (setData one_to_six grid_3_2))) (snd (setData one_to_six grid_3_2))
       = Inr [(0, 0, Number 1), (0, 1, Number 4), (1, 0, Number 2),
              (1, 1, Number 5), (2, 0, Number 3), (2, 1, Number 6)]
   \<and> (\<exists>cells.
         traverse (contents (snd (setData one_to_six grid_3_2)))
           (snd (setData one_to_six grid_3_2)) = Inr cells \<and>
         cells ! 1 = (0, 1, Number 4))"
proof -
  have full: "int (length one_to_six) = x (gsize grid_3_2) * y (gsize grid_3_2)"
    by simp
  note round_trip = C3_contents_after_setData [OF Grid_inv_grid_3_2 full]
  have "\<exists>cells.
         traverse (contents (snd (setData one_to_six grid_3_2)))
           (snd (setData one_to_six grid_3_2)) = Inr cells \<and>
         cells ! 1 = (0, 1, Number 4)"
    using round_trip [THEN conjunct2, THEN conjunct2, rule_format, of 1] by simp
  moreover
  have "fst (setData one_to_six grid_3_2) = None
   \<and> traverse (contents (snd (setData one_to_six grid_3_2))) (snd (setData one_to_six grid_3_2))
       = Inr [(0, 0, Number 1), (0, 1, Number 4), (1, 0, Number 2),
              (1, 1, Number 5), (2, 0, Number 3), (2, 1, Number 6)]"
    using round_trip [THEN conjunct1] round_trip [THEN conjunct2, THEN conjunct1]
    by (simp add: upto_0_2 upto_0_1)
  ultimately show ?thesis by blast
qed

section \<open>Properties of projects and levels\<close>

lemma Array_map_Inr:
  "Array_map f i xs = Inr ys \<Longrightarrow>
     length ys = length xs \<and> (\<forall>k < length xs. f (i + k) (xs ! k) = Inr (ys ! k))"
proof (induction xs arbitrary: i ys)
  case Nil
  then show ?case by simp
next
  case (Cons a xs)
  from Cons.prems obtain b bs where b: "f i a = Inr b" "Array_map f (i + 1) xs = Inr bs"
    "ys = b # bs"
    by (auto split: sum.splits)
  from Cons.IH [OF b(2)] have "length bs = length xs"
    and rest: "\<And>k. k < length xs \<Longrightarrow> f (i + 1 + k) (xs ! k) = Inr (bs ! k)"
    by auto
  have "f (i + k) ((a # xs) ! k) = Inr (ys ! k)" if "k < length (a # xs)" for k
  proof (cases k)
    case 0
    then show ?thesis using b by simp
  next
    case (Suc m)
    then show ?thesis using rest [of m] that b by simp
  qed
  then show ?case using b \<open>length bs = length xs\<close> by simp
qed

lemma Array_map_fails:
  "k < length xs \<Longrightarrow> f (i + k) (xs ! k) = Inl e \<Longrightarrow>
   (\<forall>k' < k. \<exists>b. f (i + k') (xs ! k') = Inr b) \<Longrightarrow> Array_map f i xs = Inl e"
proof (induction xs arbitrary: i k)
  case Nil
  then show ?case by simp
next
  case (Cons a xs)
  show ?case
  proof (cases k)
    case 0
    with Cons.prems show ?thesis by simp
  next
    case (Suc m)
    from Cons.prems(3) Suc obtain b where b: "f i a = Inr b" by fastforce
    have earlier: "\<forall>k' < m. \<exists>b. f (i + 1 + k') (xs ! k') = Inr b"
    proof (intro allI impI)
      fix k' assume "k' < m"
      then have "Suc k' < k" using Suc by simp
      with Cons.prems(3) obtain c where "f (i + Suc k') ((a # xs) ! Suc k') = Inr c" by blast
      then show "\<exists>b. f (i + 1 + k') (xs ! k') = Inr b" by simp
    qed
    have "Array_map f (i + 1) xs = Inl e"
      using Cons.prems(1,2) Suc by (intro Cons.IH [OF _ _ earlier]) simp_all
    then show ?thesis using b by simp
  qed
qed

lemma Array_map_succeeds:
  "(\<forall>k < length xs. \<exists>b. f (i + k) (xs ! k) = Inr b) \<Longrightarrow> \<exists>ys. Array_map f i xs = Inr ys"
proof (induction xs arbitrary: i)
  case Nil
  then show ?case by simp
next
  case (Cons a xs)
  from Cons.prems obtain b where b: "f i a = Inr b" by fastforce
  have "\<forall>k < length xs. \<exists>b. f (i + 1 + k) (xs ! k) = Inr b"
  proof (intro allI impI)
    fix k assume "k < length xs"
    then have "Suc k < length (a # xs)" by simp
    with Cons.prems obtain c where "f (i + Suc k) ((a # xs) ! Suc k) = Inr c" by blast
    then show "\<exists>b. f (i + 1 + k) (xs ! k) = Inr b" by simp
  qed
  from Cons.IH [OF this] obtain ys where "Array_map f (i + 1) xs = Inr ys" by blast
  then show ?case using b by simp
qed

text \<open>The first element on which the callback throws decides the exception.\<close>

lemma Array_map_first_failure:
  assumes "\<exists>k < length xs. \<exists>e. f (i + k) (xs ! k) = Inl e"
  shows "\<exists>k < length xs. \<exists>e. f (i + k) (xs ! k) = Inl e \<and> Array_map f i xs = Inl e \<and>
           (\<forall>k' < k. \<exists>b. f (i + k') (xs ! k') = Inr b)"
proof -
  define fails where "fails k \<longleftrightarrow> k < length xs \<and> (\<exists>e. f (i + k) (xs ! k) = Inl e)" for k
  from assms have "\<exists>k. fails k" by (auto simp: fails_def)
  then obtain k where k: "fails k" "\<And>k'. k' < k \<Longrightarrow> \<not> fails k'"
    using exists_least_iff [of fails] by blast
  then obtain e where e: "k < length xs" "f (i + k) (xs ! k) = Inl e"
    by (auto simp: fails_def)
  have earlier: "\<forall>k' < k. \<exists>b. f (i + k') (xs ! k') = Inr b"
  proof (intro allI impI)
    fix k' assume "k' < k"
    with k(2) e(1) have "\<not> (\<exists>e. f (i + k') (xs ! k') = Inl e)" by (auto simp: fails_def)
    then show "\<exists>b. f (i + k') (xs ! k') = Inr b" by (cases "f (i + k') (xs ! k')") auto
  qed
  from Array_map_fails [OF e earlier] e earlier show ?thesis by blast
qed

lemma find_tileset_None:
  "find (\<lambda>tileset. label tileset = lbl) (map parse_tileset raws) = None \<longleftrightarrow>
     lbl \<notin> raw_label ` set raws"
  by (auto simp: find_None_iff parse_tileset_def)

lemma parse_project_layer_Inl:
  "parse_project_layer ts k l = Inl e \<longleftrightarrow>
     is_OgmoProjectTileLayer l \<and> find (\<lambda>tileset. label tileset = defaultTileset l) ts = None \<and>
     e = No_default_tileset k (defaultTileset l)"
  by (cases l) (auto split: option.splits)

lemma parse_project_layer_tile:
  assumes "parse_project_layer ts k l = Inr l'" "is_OgmoProjectTileLayer l"
  shows "is_OgmoProjectTileLayer l' \<and>
     find (\<lambda>tileset. label tileset = defaultTileset l) ts = Some (defaultTileset l') \<and>
     name l' = name l \<and> gridSize l' = gridSize l \<and> exportID l' = exportID l \<and>
     exportMode l' = exportMode l \<and> arrayMode l' = arrayMode l"
  using assms by (cases l) (auto split: option.splits)

text \<open>
  C7. Constructing a project throws whenever some tile layer of the project
  document names a default tileset that no tileset of the document has as its label:
  the error is the one for the first such layer and carries that layer's index and
  the missing label. If it does not throw, every tile layer of the document has
  become a tile layer that carries the tileset found for its label: the first
  tileset of the project with that label. And if every tile layer's label is the
  label of some tileset, it does not throw.
\<close>

theorem C7_default_tileset_resolution:
  "((\<exists>k < length (raw_layers projectData).
       is_OgmoProjectTileLayer (raw_layers projectData ! k) \<and>
       defaultTileset (raw_layers projectData ! k) \<notin> raw_label ` set (raw_tilesets projectData))
     \<longrightarrow>
     (\<exists>k < length (raw_layers projectData).
       is_OgmoProjectTileLayer (raw_layers projectData ! k) \<and>
       defaultTileset (raw_layers projectData ! k) \<notin> raw_label ` set (raw_tilesets projectData) \<and>
       OgmoProject projectData entityFactories decalFactory =
         Inl (No_default_tileset k (defaultTileset (raw_layers projectData ! k)))))
   \<and> (OgmoProject projectData entityFactories decalFactory = Inr project \<longrightarrow>
       tilesets project = map parse_tileset (raw_tilesets projectData) \<and>
       length (layers project) = length (raw_layers projectData) \<and>
       (\<forall>k < length (raw_layers projectData).
          is_OgmoProjectTileLayer (raw_layers projectData ! k) \<longrightarrow>
          is_OgmoProjectTileLayer (layers project ! k) \<and>
          find (\<lambda>tileset. label tileset = defaultTileset (raw_layers projectData ! k))
            (tilesets project) = Some (defaultTileset (layers project ! k)) \<and>
          defaultTileset (layers project ! k) \<in> set (tilesets project) \<and>
          label (defaultTileset (layers project ! k)) =
            defaultTileset (raw_layers projectData ! k)))
   \<and> ((\<forall>k < length (raw_layers projectData).
         is_OgmoProjectTileLayer (raw_layers projectData ! k) \<longrightarrow>
         defaultTileset (raw_layers projectData ! k) \<in> raw_label ` set (raw_tilesets projectData))
       \<longrightarrow> (\<exists>project. OgmoProject projectData entityFactories decalFactory = Inr project))"
proof (intro conjI impI)
  define ts where "ts = map parse_tileset (raw_tilesets projectData)"
  define ls where "ls = raw_layers projectData"
  have unresolved: "(\<exists>e. parse_project_layer ts k l = Inl e) \<longleftrightarrow>
      is_OgmoProjectTileLayer l \<and> defaultTileset l \<notin> raw_label ` set (raw_tilesets projectData)"
    for k l
    by (simp add: parse_project_layer_Inl ts_def find_tileset_None)
  {
    assume "\<exists>k < length (raw_layers projectData).
       is_OgmoProjectTileLayer (raw_layers projectData ! k) \<and>
       defaultTileset (raw_layers projectData ! k) \<notin> raw_label ` set (raw_tilesets projectData)"
    then have "\<exists>k < length ls. \<exists>e. parse_project_layer ts (0 + k) (ls ! k) = Inl e"
      using unresolved by (simp add: ls_def)
    from Array_map_first_failure [OF this] obtain k e where k:
      "k < length ls" "parse_project_layer ts k (ls ! k) = Inl e"
      "Array_map (parse_project_layer ts) 0 ls = Inl e"
      by auto
    from k(2) have "is_OgmoProjectTileLayer (ls ! k)"
      and "defaultTileset (ls ! k) \<notin> raw_label ` set (raw_tilesets projectData)"
      and "e = No_default_tileset k (defaultTileset (ls ! k))"
      using unresolved [of k "ls ! k"] by (auto simp: parse_project_layer_Inl)
    then show "\<exists>k < length (raw_layers projectData).
       is_OgmoProjectTileLayer (raw_layers projectData ! k) \<and>
       defaultTileset (raw_layers projectData ! k) \<notin> raw_label ` set (raw_tilesets projectData) \<and>
       OgmoProject projectData entityFactories decalFactory =
         Inl (No_default_tileset k (defaultTileset (raw_layers projectData ! k)))"
      using k(1,3) by (auto simp: OgmoProject_def ts_def ls_def)
  }
  {
    assume ok: "OgmoProject projectData entityFactories decalFactory = Inr project"
    then obtain parsed where parsed: "Array_map (parse_project_layer ts) 0 ls = Inr parsed"
      "layers project = parsed" "tilesets project = ts"
      by (auto simp: OgmoProject_def ts_def ls_def Let_def split: sum.splits)
    show "tilesets project = map parse_tileset (raw_tilesets projectData)"
      using parsed(3) by (simp add: ts_def)
    from Array_map_Inr [OF parsed(1)]
    have len: "length parsed = length ls"
      and each: "\<And>k. k < length ls \<Longrightarrow> parse_project_layer ts k (ls ! k) = Inr (parsed ! k)"
      by auto
    show "length (layers project) = length (raw_layers projectData)"
      using len parsed(2) by (simp add: ls_def)
    show "\<forall>k < length (raw_layers projectData).
          is_OgmoProjectTileLayer (raw_layers projectData ! k) \<longrightarrow>
          is_OgmoProjectTileLayer (layers project ! k) \<and>
          find (\<lambda>tileset. label tileset = defaultTileset (raw_layers projectData ! k))
            (tilesets project) = Some (defaultTileset (layers project ! k)) \<and>
          defaultTileset (layers project ! k) \<in> set (tilesets project) \<and>
          label (defaultTileset (layers project ! k)) =
            defaultTileset (raw_layers projectData ! k)"
    proof (intro allI impI)
      fix k
      assume k: "k < length (raw_layers projectData)"
        and tile: "is_OgmoProjectTileLayer (raw_layers projectData ! k)"
      from parse_project_layer_tile [OF each [of k]] k tile
      have found: "is_OgmoProjectTileLayer (parsed ! k)"
        "find (\<lambda>tileset. label tileset = defaultTileset (ls ! k)) ts =
           Some (defaultTileset (parsed ! k))"
        by (auto simp: ls_def)
      from found(2) have "defaultTileset (parsed ! k) \<in> set ts"
        and "label (defaultTileset (parsed ! k)) = defaultTileset (ls ! k)"
        by (auto simp: find_Some_iff)
      with found show "is_OgmoProjectTileLayer (layers project ! k) \<and>
          find (\<lambda>tileset. label tileset = defaultTileset (raw_layers projectData ! k))
            (tilesets project) = Some (defaultTileset (layers project ! k)) \<and>
          defaultTileset (layers project ! k) \<in> set (tilesets project) \<and>
          label (defaultTileset (layers project ! k)) =
            defaultTileset (raw_layers projectData ! k)"
        by (simp add: parsed(2,3) ls_def)
    qed
  }
  {
    assume "\<forall>k < length (raw_layers projectData).
         is_OgmoProjectTileLayer (raw_layers projectData ! k) \<longrightarrow>
         defaultTileset (raw_layers projectData ! k) \<in> raw_label ` set (raw_tilesets projectData)"
    then have "\<forall>k < length ls. \<exists>b. parse_project_layer ts (0 + k) (ls ! k) = Inr b"
      using unresolved by (metis add_0 ls_def sum.exhaust)
    from Array_map_succeeds [OF this]
    show "\<exists>project. OgmoProject projectData entityFactories decalFactory = Inr project"
      by (auto simp: OgmoProject_def ts_def ls_def)
  }
qed

theorem C7_default_tileset_resolution_witness:
  "OgmoProject (project_doc ''sky'') no_factories None = Inl (No_default_tileset 1 ''sky'')
   \<and> (\<exists>project. OgmoProject (project_doc ''ground'') no_factories None = Inr project
         \<and> is_OgmoProjectTileLayer (layers project ! 1)
         \<and> defaultTileset (layers project ! 1) = parse_tileset ground_tileset)"
proof -
  have "\<exists>k < length (raw_layers (project_doc ''sky'')).
       is_OgmoProjectTileLayer (raw_layers (project_doc ''sky'') ! k) \<and>
       defaultTileset (raw_layers (project_doc ''sky'') ! k)
         \<notin> raw_label ` set (raw_tilesets (project_doc ''sky''))"
    by (intro exI [of _ 1]) simp
  with C7_default_tileset_resolution [of "project_doc ''sky''" no_factories None undefined]
  obtain k where k: "k < length (raw_layers (project_doc ''sky''))"
    "is_OgmoProjectTileLayer (raw_layers (project_doc ''sky'') ! k)"
    "OgmoProject (project_doc ''sky'') no_factories None =
       Inl (No_default_tileset k (defaultTileset (raw_layers (project_doc ''sky'') ! k)))"
    by blast
  from k(1,2) have "k = 1"
    by (cases k) (auto simp: nth_Cons' split: if_splits)
  with k(3) have missing:
    "OgmoProject (project_doc ''sky'') no_factories None = Inl (No_default_tileset 1 ''sky'')"
    by simp
  have "\<forall>k < length (raw_layers (project_doc ''ground'')).
         is_OgmoProjectTileLayer (raw_layers (project_doc ''ground'') ! k) \<longrightarrow>
         defaultTileset (raw_layers (project_doc ''ground'') ! k)
           \<in> raw_label ` set (raw_tilesets (project_doc ''ground''))"
    by (auto simp: nth_Cons' split: if_splits)
  with C7_default_tileset_resolution [of "project_doc ''ground''" no_factories None undefined]
  obtain project where
    project: "OgmoProject (project_doc ''ground'') no_factories None = Inr project"
    by blast
  from C7_default_tileset_resolution [of "project_doc ''ground''" no_factories None project]
    project
  have "tilesets project = map parse_tileset (raw_tilesets (project_doc ''ground''))"
    and "\<forall>k < length (raw_layers (project_doc ''ground'')).
          is_OgmoProjectTileLayer (raw_layers (project_doc ''ground'') ! k) \<longrightarrow>
          is_OgmoProjectTileLayer (layers project ! k) \<and>
          find (\<lambda>tileset. label tileset = defaultTileset (raw_layers (project_doc ''ground'') ! k))
            (tilesets project) = Some (defaultTileset (layers project ! k))"
    by blast+
  then have "is_OgmoProjectTileLayer (layers project ! 1)"
    and "defaultTileset (layers project ! 1) = parse_tileset ground_tileset"
    by (auto simp: parse_tileset_def)
  with missing project show ?thesis by blast
qed

lemma find_project_layer_None:
  "find (\<lambda>pl. exportID pl = eid) pls = None \<longleftrightarrow> eid \<notin> exportID ` set pls"
  by (auto simp: find_None_iff)

lemma parse_level_layer_unmatched:
  "raw_eid layer \<notin> exportID ` set (layers project) \<Longrightarrow>
     parse_level_layer project index layer = Inl (No_project_layer index (raw_eid layer))"
  by (simp add: parse_level_layer_def find_project_layer_None [THEN iffD2])

lemma parse_level_layer_Inr:
  "parse_level_layer project index layer = Inr parsed \<Longrightarrow>
     find (\<lambda>pl. exportID pl = raw_eid layer) (layers project) = Some (projectLayer parsed)"
  by (auto simp: parse_level_layer_def split: option.splits OgmoProjectLayer.splits sum.splits)

lemma OgmoLevel_Inr:
  "snd (OgmoLevel project levelData) = Inr level \<Longrightarrow>
     Array_map (parse_level_layer project) 0 (raw_level_layers levelData) =
       Inr (level_layers level)"
  by (auto simp: OgmoLevel_def split: sum.splits prod.splits option.splits)

lemma OgmoProject_example:
  "OgmoProject (project_doc ''ground'') no_factories None = Inr example_project"
  by (simp add: OgmoProject_def parse_tileset_def)

lemma parse_tile_instance:
  "parse_level_layer example_project index (tile_instance [7]) =
     Inr (Level_tile
           (OgmoProjectTileLayer ''terrain'' cell_16 ''t1'' 0 0 (parse_tileset ground_tileset))
           \<lparr> gsize = \<lparr> x = 1, y = 1 \<rparr>, data = [[Number 7]], defaultValue = Number 0,
             named_properties = [] \<rparr>)"
  by (simp add: parse_level_layer_def new_grid_with_def Grid_new_def Grid_constructor_def
      Grid_allocate_def valid_array_length_def setData_def set_at_int out_of_bounds_int
      write_cell_def array_store_def)

lemma parse_tile_instance_overfull:
  "parse_level_layer example_project index (tile_instance [7, 8]) =
     Inl (Grid_out_of_bounds 1 1 0 1)"
  by (simp add: parse_level_layer_def new_grid_with_def Grid_new_def Grid_constructor_def
      Grid_allocate_def valid_array_length_def setData_def set_at_int out_of_bounds_int
      write_cell_def array_store_def)

text \<open>
  C6, as claimed: constructing a level fails with the error that reports the layer
  index and the unmatched export identifier whenever some layer instance's \<open>_eid\<close>
  matches no project layer. The layer instances are parsed in order and the first
  exception ends the construction: here the first instance is a tile layer of one
  cell with two tile indices, the second has an \<open>_eid\<close> that no project layer has, and
  the level fails with the grid's out-of-bounds error of the first.
\<close>

theorem C6_level_layer_resolution_counterexample:
  "OgmoProject (project_doc ''ground'') no_factories None = Inr example_project
   \<and> raw_eid unknown_instance \<notin> exportID ` set (layers example_project)
   \<and> OgmoLevel example_project (level_doc [tile_instance [7, 8], unknown_instance]) =
       ([], Inl (Grid_out_of_bounds 1 1 0 1))
   \<and> Grid_out_of_bounds 1 1 0 1 \<noteq> No_project_layer 1 ''missing''"
  using OgmoProject_example
  by (simp add: OgmoLevel_def parse_tile_instance_overfull)

text \<open>
  C6, amended. Constructing a level fails, before anything is realized, whenever
  some layer instance's \<open>_eid\<close> matches no project layer's \<open>exportID\<close>; the exception is
  that of the first layer instance that fails, so when every instance before the
  unmatched one parses, it is the error that carries the index and the \<open>_eid\<close> of the
  unmatched instance. When a level is returned, it has one layer per instance, each
  carrying the project layer that \<open>find\<close> gives for the instance's \<open>_eid\<close>: the first
  project layer with that \<open>exportID\<close>. The last part says which exception it is in
  general: whenever some instance fails to parse, there is a first such instance,
  every instance before it parses, and the level fails, with nothing realized, with
  exactly the exception of that instance.
\<close>

theorem C6_level_layer_resolution:
  "(k < length (raw_level_layers levelData) \<and>
    raw_eid (raw_level_layers levelData ! k) \<notin> exportID ` set (layers project) \<and>
    (\<forall>k' < k. \<exists>parsed.
       parse_level_layer project k' (raw_level_layers levelData ! k') = Inr parsed)
    \<longrightarrow> OgmoLevel project levelData =
          ([], Inl (No_project_layer k (raw_eid (raw_level_layers levelData ! k)))))
   \<and> ((\<exists>k < length (raw_level_layers levelData).
          raw_eid (raw_level_layers levelData ! k) \<notin> exportID ` set (layers project))
       \<longrightarrow> (\<exists>e. OgmoLevel project levelData = ([], Inl e)))
   \<and> (snd (OgmoLevel project levelData) = Inr level \<longrightarrow>
        length (level_layers level) = length (raw_level_layers levelData) \<and>
        (\<forall>k < length (raw_level_layers levelData).
           find (\<lambda>pl. exportID pl = raw_eid (raw_level_layers levelData ! k)) (layers project)
             = Some (projectLayer (level_layers level ! k)) \<and>
           projectLayer (level_layers level ! k) \<in> set (layers project) \<and>
           exportID (projectLayer (level_layers level ! k)) =
             raw_eid (raw_level_layers levelData ! k)))
   \<and> ((\<exists>k < length (raw_level_layers levelData). \<exists>e.
          parse_level_layer project k (raw_level_layers levelData ! k) = Inl e)
       \<longrightarrow> (\<exists>k < length (raw_level_layers levelData). \<exists>e.
              parse_level_layer project k (raw_level_layers levelData ! k) = Inl e \<and>
              (\<forall>k' < k. \<exists>parsed.
                 parse_level_layer project k' (raw_level_layers levelData ! k') = Inr parsed) \<and>
              OgmoLevel project levelData = ([], Inl e)))"
proof (intro conjI impI)
  define ls where "ls = raw_level_layers levelData"
  {
    assume "k < length (raw_level_layers levelData) \<and>
      raw_eid (raw_level_layers levelData ! k) \<notin> exportID ` set (layers project) \<and>
      (\<forall>k' < k. \<exists>parsed.
         parse_level_layer project k' (raw_level_layers levelData ! k') = Inr parsed)"
    then have k: "k < length ls"
      and fails: "parse_level_layer project (0 + k) (ls ! k) =
        Inl (No_project_layer k (raw_eid (ls ! k)))"
      and earlier: "\<forall>k' < k. \<exists>parsed. parse_level_layer project (0 + k') (ls ! k') = Inr parsed"
      by (simp_all add: ls_def parse_level_layer_unmatched)
    from Array_map_fails [OF k fails earlier]
    show "OgmoLevel project levelData =
        ([], Inl (No_project_layer k (raw_eid (raw_level_layers levelData ! k))))"
      by (simp add: OgmoLevel_def ls_def)
  }
  {
    assume "\<exists>k < length (raw_level_layers levelData).
        raw_eid (raw_level_layers levelData ! k) \<notin> exportID ` set (layers project)"
    then have "\<exists>k < length ls. \<exists>e. parse_level_layer project (0 + k) (ls ! k) = Inl e"
      by (auto simp: ls_def parse_level_layer_unmatched)
    from Array_map_first_failure [OF this]
    obtain e where "Array_map (parse_level_layer project) 0 ls = Inl e" by blast
    then show "\<exists>e. OgmoLevel project levelData = ([], Inl e)"
      by (simp add: OgmoLevel_def ls_def)
  }
  {
    assume "snd (OgmoLevel project levelData) = Inr level"
    from Array_map_Inr [OF OgmoLevel_Inr [OF this]]
    have len: "length (level_layers level) = length ls"
      and each: "\<And>k. k < length ls \<Longrightarrow>
        parse_level_layer project k (ls ! k) = Inr (level_layers level ! k)"
      by (auto simp: ls_def)
    show "length (level_layers level) = length (raw_level_layers levelData)"
      using len by (simp add: ls_def)
    show "\<forall>k < length (raw_level_layers levelData).
           find (\<lambda>pl. exportID pl = raw_eid (raw_level_layers levelData ! k)) (layers project)
             = Some (projectLayer (level_layers level ! k)) \<and>
           projectLayer (level_layers level ! k) \<in> set (layers project) \<and>
           exportID (projectLayer (level_layers level ! k)) =
             raw_eid (raw_level_layers levelData ! k)"
    proof (intro allI impI)
      fix k assume "k < length (raw_level_layers levelData)"
      then have found:
        "find (\<lambda>pl. exportID pl = raw_eid (ls ! k)) (layers project)
           = Some (projectLayer (level_layers level ! k))"
        using parse_level_layer_Inr [OF each [of k]] by (simp add: ls_def)
      then have "projectLayer (level_layers level ! k) \<in> set (layers project)"
        and "exportID (projectLayer (level_layers level ! k)) = raw_eid (ls ! k)"
        by (auto simp: find_Some_iff)
      with found show
        "find (\<lambda>pl. exportID pl = raw_eid (raw_level_layers levelData ! k)) (layers project)
             = Some (projectLayer (level_layers level ! k)) \<and>
           projectLayer (level_layers level ! k) \<in> set (layers project) \<and>
           exportID (projectLayer (level_layers level ! k)) =
             raw_eid (raw_level_layers levelData ! k)"
        by (simp add: ls_def)
    qed
  }
  {
    assume "\<exists>k < length (raw_level_layers levelData). \<exists>e.
        parse_level_layer project k (raw_level_layers levelData ! k) = Inl e"
    then have "\<exists>k < length ls. \<exists>e. parse_level_layer project (0 + k) (ls ! k) = Inl e"
      by (simp add: ls_def)
    from Array_map_first_failure [OF this]
    obtain k e where k: "k < length ls"
      and fails: "parse_level_layer project (0 + k) (ls ! k) = Inl e"
      and first: "Array_map (parse_level_layer project) 0 ls = Inl e"
      and earlier: "\<forall>k' < k. \<exists>b. parse_level_layer project (0 + k') (ls ! k') = Inr b"
      by blast
    from first have "OgmoLevel project levelData = ([], Inl e)"
      by (simp add: OgmoLevel_def ls_def)
    with k fails earlier
    show "\<exists>k < length (raw_level_layers levelData). \<exists>e.
        parse_level_layer project k (raw_level_layers levelData ! k) = Inl e \<and>
        (\<forall>k' < k. \<exists>parsed.
           parse_level_layer project k' (raw_level_layers levelData ! k') = Inr parsed) \<and>
        OgmoLevel project levelData = ([], Inl e)"
      unfolding ls_def by (intro exI [of _ k] exI [of _ e]) simp
  }
qed

lemma parse_decal_instance:
  "parse_level_layer example_project index (decal_instance ds) =
     Inr (Level_decal (OgmoProjectDecalLayer ''props'' cell_16 ''d1'' False True True [])
           (Some ds))"
  by (simp add: parse_level_layer_def)

theorem C6_level_layer_resolution_witness:
  "OgmoLevel example_project (level_doc [tile_instance [7], unknown_instance]) =
     ([], Inl (No_project_layer 1 ''missing''))
   \<and> (\<exists>level.
         snd (OgmoLevel example_project
               (level_doc [tile_instance [7], decal_instance [decal_rotated None]])) = Inr level
         \<and> projectLayer (level_layers level ! 0) =
             OgmoProjectTileLayer ''terrain'' cell_16 ''t1'' 0 0 (parse_tileset ground_tileset)
         \<and> projectLayer (level_layers level ! 1) =
             OgmoProjectDecalLayer ''props'' cell_16 ''d1'' False True True [])
   \<and> (\<exists>e. OgmoLevel example_project (level_doc [tile_instance [7, 8], unknown_instance]) =
          ([], Inl e))
   \<and> OgmoLevel example_project (level_doc [unknown_instance, tile_instance [7, 8]]) =
       ([], Inl (No_project_layer 0 ''missing''))
   \<and> OgmoLevel example_project (level_doc [tile_instance [7, 8], unknown_instance]) =
       ([], Inl (Grid_out_of_bounds 1 1 0 1))"
proof -
  have "\<exists>k < length (raw_level_layers (level_doc [tile_instance [7, 8], unknown_instance])).
      raw_eid (raw_level_layers (level_doc [tile_instance [7, 8], unknown_instance]) ! k)
        \<notin> exportID ` set (layers example_project)"
    by (intro exI [of _ 1]) simp
  with C6_level_layer_resolution
    [of 0 "level_doc [tile_instance [7, 8], unknown_instance]" example_project undefined]
  have fails: "\<exists>e. OgmoLevel example_project
      (level_doc [tile_instance [7, 8], unknown_instance]) = ([], Inl e)"
    by blast
  have "\<forall>k' < 1. \<exists>parsed.
      parse_level_layer example_project k'
        (raw_level_layers (level_doc [tile_instance [7], unknown_instance]) ! k') = Inr parsed"
    by (simp add: parse_tile_instance)
  with C6_level_layer_resolution
    [of 1 "level_doc [tile_instance [7], unknown_instance]" example_project undefined]
  have unmatched: "OgmoLevel example_project (level_doc [tile_instance [7], unknown_instance]) =
     ([], Inl (No_project_layer 1 ''missing''))"
    by simp
  obtain level where level:
    "snd (OgmoLevel example_project
           (level_doc [tile_instance [7], decal_instance [decal_rotated None]])) = Inr level"
    by (simp add: OgmoLevel_def parse_tile_instance parse_decal_instance)
  note resolved = C6_level_layer_resolution
    [of 0 "level_doc [tile_instance [7], decal_instance [decal_rotated None]]"
      example_project level, THEN conjunct2, THEN conjunct2, THEN conjunct1, rule_format,
      OF level, THEN conjunct2, rule_format]
  have "projectLayer (level_layers level ! 0) =
      OgmoProjectTileLayer ''terrain'' cell_16 ''t1'' 0 0 (parse_tileset ground_tileset)"
    using resolved [of 0] by simp
  moreover have "projectLayer (level_layers level ! 1) =
      OgmoProjectDecalLayer ''props'' cell_16 ''d1'' False True True []"
    using resolved [of 1] by simp
  moreover have "OgmoLevel example_project (level_doc [unknown_instance, tile_instance [7, 8]]) =
       ([], Inl (No_project_layer 0 ''missing''))"
  proof -
    note first = C6_level_layer_resolution
      [of 0 "level_doc [unknown_instance, tile_instance [7, 8]]" example_project undefined,
        THEN conjunct2, THEN conjunct2, THEN conjunct2, rule_format]
    have "\<exists>k < length (raw_level_layers (level_doc [unknown_instance, tile_instance [7, 8]])).
        \<exists>e. parse_level_layer example_project k
          (raw_level_layers (level_doc [unknown_instance, tile_instance [7, 8]]) ! k) = Inl e"
      by (intro exI [of _ 0]) (simp add: parse_level_layer_unmatched)
    from first [OF this] obtain k e where
      "k < length (raw_level_layers (level_doc [unknown_instance, tile_instance [7, 8]]))
       \<and> parse_level_layer example_project k
          (raw_level_layers (level_doc [unknown_instance, tile_instance [7, 8]]) ! k) = Inl e
       \<and> (\<forall>k' < k. \<exists>parsed. parse_level_layer example_project k'
          (raw_level_layers (level_doc [unknown_instance, tile_instance [7, 8]]) ! k') = Inr parsed)
       \<and> OgmoLevel example_project (level_doc [unknown_instance, tile_instance [7, 8]]) =
          ([], Inl e)"
      by blast
    then have k: "k < 2"
      and e: "parse_level_layer example_project k
          ([unknown_instance, tile_instance [7, 8]] ! k) = Inl e"
      and earlier: "\<forall>k' < k. \<exists>parsed. parse_level_layer example_project k'
          ([unknown_instance, tile_instance [7, 8]] ! k') = Inr parsed"
      and res: "OgmoLevel example_project (level_doc [unknown_instance, tile_instance [7, 8]]) =
          ([], Inl e)"
      by simp_all
    have "k = 0"
    proof (rule ccontr)
      assume "k \<noteq> 0"
      with earlier obtain parsed where
        "parse_level_layer example_project 0 unknown_instance = Inr parsed" by auto
      then show False by (simp add: parse_level_layer_unmatched)
    qed
    with e have "e = No_project_layer 0 ''missing''"
      by (simp add: parse_level_layer_unmatched)
    with res show ?thesis by simp
  qed
  moreover have "OgmoLevel example_project (level_doc [tile_instance [7, 8], unknown_instance]) =
       ([], Inl (Grid_out_of_bounds 1 1 0 1))"
  proof -
    note first = C6_level_layer_resolution
      [of 0 "level_doc [tile_instance [7, 8], unknown_instance]" example_project undefined,
        THEN conjunct2, THEN conjunct2, THEN conjunct2, rule_format]
    have "\<exists>k < length (raw_level_layers (level_doc [tile_instance [7, 8], unknown_instance])).
        \<exists>e. parse_level_layer example_project k
          (raw_level_layers (level_doc [tile_instance [7, 8], unknown_instance]) ! k) = Inl e"
      by (intro exI [of _ 0]) (simp add: parse_tile_instance_overfull)
    from first [OF this] obtain k e where
      "k < length (raw_level_layers (level_doc [tile_instance [7, 8], unknown_instance]))
       \<and> parse_level_layer example_project k
          (raw_level_layers (level_doc [tile_instance [7, 8], unknown_instance]) ! k) = Inl e
       \<and> (\<forall>k' < k. \<exists>parsed. parse_level_layer example_project k'
          (raw_level_layers (level_doc [tile_instance [7, 8], unknown_instance]) ! k') = Inr parsed)
       \<and> OgmoLevel example_project (level_doc [tile_instance [7, 8], unknown_instance]) =
          ([], Inl e)"
      by blast
    then have k: "k < 2"
      and e: "parse_level_layer example_project k
          ([tile_instance [7, 8], unknown_instance] ! k) = Inl e"
      and earlier: "\<forall>k' < k. \<exists>parsed. parse_level_layer example_project k'
          ([tile_instance [7, 8], unknown_instance] ! k') = Inr parsed"
      and res: "OgmoLevel example_project (level_doc [tile_instance [7, 8], unknown_instance]) =
          ([], Inl e)"
      by simp_all
    have "k = 0"
    proof (rule ccontr)
      assume "k \<noteq> 0"
      with earlier obtain parsed where
        "parse_level_layer example_project 0 (tile_instance [7, 8]) = Inr parsed" by auto
      then show False by (simp add: parse_tile_instance_overfull)
    qed
    with e have "e = Grid_out_of_bounds 1 1 0 1"
      by (simp add: parse_tile_instance_overfull)
    with res show ?thesis by simp
  qed
  ultimately show ?thesis using unmatched level fails by blast
qed


lemma project_createEntity_unregistered:
  "entityFactories (e_name entData) = None \<Longrightarrow> e_name entData \<notin> set Object_prototype_keys \<Longrightarrow>
     project_createEntity entityFactories entData = Inl (No_entity_factory (e_name entData))"
  by (simp add: project_createEntity_def get_property_def)

lemma e_name_with_rotation_in_radians [simp]:
  "e_name (with_rotation_in_radians entData) = e_name entData"
  by (simp add: with_rotation_in_radians_def)





text \<open>
  C8. The claim: \<open>createEntity\<close> for a placement whose name has no registered factory
  throws the error that names the entity. It does for every name that a plain object
  does not inherit a property for, and it hands a registered factory the record and
  returns its result. But the lookup \<open>entityFactories[data.name]\<close> also finds what
  the object inherits: with no factory registered at all, a placement named
  \<open>constructor\<close> gets \<open>Object(data)\<close>, the record itself, and one named \<open>toString\<close>
  gets a string; neither call throws.
\<close>

theorem C8_inherited_name_finds_a_builtin:
  "no_factories ''constructor'' = None
   \<and> project_createEntity no_factories (entity_named ''constructor'' None) =
       Inr (Data_object (entity_named ''constructor'' None))
   \<and> project_createEntity no_factories (entity_named ''toString'' None) =
       Inr (String_value ''[object Undefined]'')
   \<and> create_entities example_project [entity_named ''constructor'' None] =
       ([Call_createEntity (entity_named ''constructor'' (Some 0))], None)"
  by (simp add: project_createEntity_def get_property_def Object_prototype_keys_def
      call_inherited_def with_rotation_in_radians_def)

end
